theory Spec2Isabelle
  imports Complex_Main "HOL-Library.Word"
begin

unbundle bit_operations_syntax

section \<open>zynaudioplayer: the data model of player.c\<close>

text \<open>
  The embedding follows \<^verbatim>\<open>src/zynlibs/zynaudioplayer/player.c\<close>.

  \<^item> \<^verbatim>\<open>uint8_t\<close> fields are \<open>8 word\<close>, \<^verbatim>\<open>jack_nframes_t\<close> is \<open>32 word\<close>;
    \<^verbatim>\<open>sf_count_t\<close> (64 bit, signed) and \<^verbatim>\<open>int\<close> are \<open>int\<close>, \<^verbatim>\<open>size_t\<close> and
    \<^verbatim>\<open>unsigned int\<close> are \<open>nat\<close>; a conversion between them that can change the value
    is written out.
  \<^item> The gain, the time passed to a loop setter and the value handed to the callback are
    of type \<open>c_float\<close>: a number, an infinity, or not a number. The product that turns
    the time passed to a loop setter into a frame count is rounded to single precision
    as the hardware does. The other \<^verbatim>\<open>float\<close> and \<^verbatim>\<open>double\<close> values are the real
    numbers they denote: comparison, storing and the truncation to an integer are as in
    C, the rounding of their arithmetic is not modelled.
  \<^item> Undefined behaviour of the C code (a read or write outside an array, a call on a ring
    buffer pointer that names no live ring buffer, a join of a thread id that names no
    thread, a division by zero, a float that does not fit the integer it is converted
    to) is the value \<open>Inl\<close> of an error. The one exception is the frame count that the
    loop setters compute from the time a caller requests, see \<open>float_to_nframes\<close>.
  \<^item> The worker thread and the realtime callback are sequentialised: the parts of
    \<^verbatim>\<open>file_thread_fn\<close> that a caller waits for (the open, the exit joined by
    \<^verbatim>\<open>unload\<close>) run inside the call that waits.
\<close>

datatype error =
    OutOfBoundsRead
  | OutOfBoundsWrite
  | InvalidRingbuffer
  | InvalidPlayer
  | DivisionByZero
  | FloatOutOfRange
  | InvalidThread

definition bindE :: "error + 'a \<Rightarrow> ('a \<Rightarrow> error + 'b) \<Rightarrow> error + 'b" where
  "bindE m f = (case m of Inl e \<Rightarrow> Inl e | Inr x \<Rightarrow> f x)"

abbreviation MAX_PLAYERS :: int where "MAX_PLAYERS \<equiv> 17"

text \<open>\<^verbatim>\<open>enum playState\<close> and \<^verbatim>\<open>enum seekState\<close>, stored in \<^verbatim>\<open>uint8_t\<close> fields.\<close>

abbreviation STOPPED :: "8 word" where "STOPPED \<equiv> 0"
abbreviation STARTING :: "8 word" where "STARTING \<equiv> 1"
abbreviation PLAYING :: "8 word" where "PLAYING \<equiv> 2"
abbreviation STOPPING :: "8 word" where "STOPPING \<equiv> 3"

abbreviation IDLE :: "8 word" where "IDLE \<equiv> 0"
abbreviation SEEKING :: "8 word" where "SEEKING \<equiv> 1"
abbreviation LOADING :: "8 word" where "LOADING \<equiv> 2"
abbreviation LOOPING :: "8 word" where "LOOPING \<equiv> 3"

text \<open>
  Modelled from the spec: the notification tags of \<^verbatim>\<open>player.h\<close>, a header that is not
  among the sources. The notification dispatcher of the spec reports one observable field
  per tag; the constructors are the tags \<^verbatim>\<open>player.c\<close> uses, taken to be distinct.
\<close>

datatype notify =
    NOTIFY_ALL
  | NOTIFY_TRANSPORT
  | NOTIFY_POSITION
  | NOTIFY_GAIN
  | NOTIFY_LOOP
  | NOTIFY_LOOP_START
  | NOTIFY_LOOP_END
  | NOTIFY_TRACK_A
  | NOTIFY_TRACK_B
  | NOTIFY_QUALITY
  | NOTIFY_DEBUG

text \<open>
  Modelled from the spec: the ring buffer channel (JACK's \<^verbatim>\<open>jack_ringbuffer_t\<close>, an
  external library). It is a byte queue of fixed capacity; \<open>rb_size\<close> is the number of
  bytes it can hold and \<open>rb_fill\<close> the number of bytes waiting to be read. A write or a
  read moves as many bytes as fit and returns their number. The bytes themselves are
  not tracked.
\<close>

record jack_ringbuffer =
  rb_size :: nat
  rb_fill :: nat

definition jack_ringbuffer_write_space :: "jack_ringbuffer \<Rightarrow> nat" where
  "jack_ringbuffer_write_space rb = rb_size rb - rb_fill rb"

definition jack_ringbuffer_read_space :: "jack_ringbuffer \<Rightarrow> nat" where
  "jack_ringbuffer_read_space rb = rb_fill rb"

definition jack_ringbuffer_write :: "jack_ringbuffer \<Rightarrow> nat \<Rightarrow> jack_ringbuffer \<times> nat" where
  "jack_ringbuffer_write rb cnt =
     (let n = min cnt (jack_ringbuffer_write_space rb)
      in (rb\<lparr>rb_fill := rb_fill rb + n\<rparr>, n))"

definition jack_ringbuffer_read :: "jack_ringbuffer \<Rightarrow> nat \<Rightarrow> jack_ringbuffer \<times> nat" where
  "jack_ringbuffer_read rb cnt =
     (let n = min cnt (jack_ringbuffer_read_space rb)
      in (rb\<lparr>rb_fill := rb_fill rb - n\<rparr>, n))"

definition jack_ringbuffer_peek :: "jack_ringbuffer \<Rightarrow> nat \<Rightarrow> nat" where
  "jack_ringbuffer_peek rb cnt = min cnt (jack_ringbuffer_read_space rb)"

definition jack_ringbuffer_reset :: "jack_ringbuffer \<Rightarrow> jack_ringbuffer" where
  "jack_ringbuffer_reset rb = rb\<lparr>rb_fill := 0\<rparr>"

text \<open>
  A field \<^verbatim>\<open>jack_ringbuffer_t *\<close> is \<open>Some rb\<close> while it points to a live ring buffer and
  \<open>None\<close> otherwise (null, freed, or never set); using it then is an error.
\<close>

definition rb_deref :: "jack_ringbuffer option \<Rightarrow> error + jack_ringbuffer" where
  "rb_deref r = (case r of None \<Rightarrow> Inl InvalidRingbuffer | Some rb \<Rightarrow> Inr rb)"

definition rb_reset_ptr :: "jack_ringbuffer option \<Rightarrow> error + jack_ringbuffer option" where
  "rb_reset_ptr r = bindE (rb_deref r) (\<lambda>rb. Inr (Some (jack_ringbuffer_reset rb)))"

text \<open>
  A value of type \<^verbatim>\<open>float\<close>: a number, plus or minus infinity, or not a number. The
  comparisons are those of C: every comparison with a value that is not a number is
  false.
\<close>

datatype c_float = Num real | PosInf | NegInf | NaN

fun cf_less :: "c_float \<Rightarrow> c_float \<Rightarrow> bool" where
  "cf_less (Num x) (Num y) = (x < y)"
| "cf_less (Num x) PosInf = True"
| "cf_less NegInf (Num y) = True"
| "cf_less NegInf PosInf = True"
| "cf_less _ _ = False"

fun cf_le :: "c_float \<Rightarrow> c_float \<Rightarrow> bool" where
  "cf_le (Num x) (Num y) = (x \<le> y)"
| "cf_le NaN _ = False"
| "cf_le _ NaN = False"
| "cf_le NegInf _ = True"
| "cf_le _ PosInf = True"
| "cf_le _ _ = False"

fun cf_sub :: "c_float \<Rightarrow> c_float \<Rightarrow> c_float" where
  "cf_sub (Num x) (Num y) = Num (x - y)"
| "cf_sub NaN _ = NaN"
| "cf_sub _ NaN = NaN"
| "cf_sub PosInf PosInf = NaN"
| "cf_sub NegInf NegInf = NaN"
| "cf_sub PosInf _ = PosInf"
| "cf_sub NegInf _ = NegInf"
| "cf_sub (Num x) PosInf = NegInf"
| "cf_sub (Num x) NegInf = PosInf"

fun cf_abs :: "c_float \<Rightarrow> c_float" where
  "cf_abs (Num x) = Num \<bar>x\<bar>"
| "cf_abs PosInf = PosInf"
| "cf_abs NegInf = PosInf"
| "cf_abs NaN = NaN"

fun cf_sgn :: "c_float \<Rightarrow> int" where
  "cf_sgn (Num x) = (if x < 0 then - 1 else if x = 0 then 0 else 1)"
| "cf_sgn PosInf = 1"
| "cf_sgn NegInf = - 1"
| "cf_sgn NaN = 0"

text \<open>
  Rounding to single precision (IEEE 754 binary32, round to nearest, ties to even): a
  number \<open>x\<close> other than 0 lies in the binade of exponent \<open>e\<close>, which is at least -126,
  and is rounded to a multiple of \<open>2 ^ (e - 23)\<close>; a result of magnitude \<open>2 ^ 128\<close> is
  an infinity.
\<close>

definition round_half_even :: "real \<Rightarrow> int" where
  "round_half_even y =
     (let f = \<lfloor>y\<rfloor>; d = y - of_int f
      in if d < 1 / 2 then f else if 1 / 2 < d then f + 1 else if even f then f else f + 1)"

definition f32 :: "real \<Rightarrow> c_float" where
  "f32 x =
     (let e = max (- 126) \<lfloor>log 2 \<bar>x\<bar>\<rfloor>;
          u = 2 powi (e - 23);
          r = of_int (round_half_even (x / u)) * u
      in if x = 0 then Num 0
         else if 2 ^ 128 \<le> \<bar>r\<bar> then (if 0 < x then PosInf else NegInf)
         else Num r)"

text \<open>The product of two \<^verbatim>\<open>float\<close> values.\<close>

definition cf_mul :: "c_float \<Rightarrow> c_float \<Rightarrow> c_float" where
  "cf_mul a b =
     (case (a, b) of
        (Num x, Num y) \<Rightarrow> f32 (x * y)
      | (NaN, _) \<Rightarrow> NaN
      | (_, NaN) \<Rightarrow> NaN
      | _ \<Rightarrow> (if cf_sgn a * cf_sgn b = 0 then NaN
              else if 0 < cf_sgn a * cf_sgn b then PosInf else NegInf))"

text \<open>\<^verbatim>\<open>struct SF_INFO\<close> of libsndfile, the fields the player reads.\<close>

record SF_INFO =
  sf_frames :: int
  sf_samplerate :: int
  sf_channels :: int
  sf_format :: int

text \<open>
  \<^verbatim>\<open>struct AUDIO_PLAYER\<close>. A callback pointer is \<open>None\<close> when null and otherwise names
  the registered function; the thread id is left out.
\<close>

record AUDIO_PLAYER =
  handle :: nat
  jack_out_a :: nat
  jack_out_b :: nat
  file_open :: "8 word"
  file_read_status :: "8 word"
  play_state :: "8 word"
  file_read_pos :: int
  loop :: "8 word"
  loop_loaded :: "8 word"
  loop_start :: int
  loop_start_src :: int
  loop_end :: int
  loop_end_src :: int
  gain :: c_float
  track_a :: int
  track_b :: int
  input_buffer_size :: nat
  output_buffer_size :: nat
  buffer_count :: nat
  src_quality :: nat
  last_play_state :: "8 word"
  last_loop :: "8 word"
  last_loop_start :: int
  last_loop_end :: int
  last_position :: real
  last_gain :: c_float
  last_track_a :: int
  last_track_b :: int
  last_input_buffer_size :: nat
  last_output_buffer_size :: nat
  last_buffer_count :: nat
  last_src_quality :: nat
  sf_info :: SF_INFO
  ringbuffer_a :: "jack_ringbuffer option"
  ringbuffer_b :: "jack_ringbuffer option"
  play_pos_frames :: "32 word"
  frames :: nat
  filename :: string
  last_note_played :: "8 word"
  src_ratio :: real
  pitch_shift :: real
  pitch_bend :: nat
  cb_object :: "nat option"
  cb_fn :: "nat option"
  pos_notify_delta :: real

text \<open>
  One invocation of the notification callback:
  \<^verbatim>\<open>cb_fn(cb_object, handle, tag, value)\<close>.
\<close>

record cb_call =
  call_fn :: nat
  call_object :: "nat option"
  call_handle :: nat
  call_tag :: notify
  call_value :: c_float

text \<open>
  The globals of the library. \<open>g_players\<close> is the table
  \<^verbatim>\<open>struct AUDIO_PLAYER * g_players[MAX_PLAYERS]\<close>: entry \<open>i\<close> is \<open>None\<close> for a null pointer and
  otherwise holds the player it points to. Only the entries \<open>0 .. 16\<close> exist; every read
  goes through \<open>g_players_at\<close>. \<open>cb_log\<close> records the callback invocations in order.
\<close>

record state =
  g_players :: "nat \<Rightarrow> AUDIO_PLAYER option"
  g_jack_client :: bool
  g_samplerate :: nat
  g_debug :: "8 word"
  g_last_debug :: "8 word"
  cb_log :: "cb_call list"

definition g_players_at :: "state \<Rightarrow> int \<Rightarrow> error + AUDIO_PLAYER option" where
  "g_players_at s i =
     (if 0 \<le> i \<and> i < MAX_PLAYERS then Inr (g_players s (nat i)) else Inl OutOfBoundsRead)"

section \<open>The guarded lookup\<close>

text \<open>
  \<^verbatim>\<open>get_player\<close>: the test is \<^verbatim>\<open>player_handle > MAX_PLAYERS || player_handle < 0\<close>.
\<close>

definition get_player :: "state \<Rightarrow> int \<Rightarrow> error + AUDIO_PLAYER option" where
  "get_player s player_handle =
     (if player_handle > MAX_PLAYERS \<or> player_handle < 0 then Inr None
      else g_players_at s player_handle)"

text \<open>Writing through the pointer \<^verbatim>\<open>g_players[i]\<close>.\<close>

definition put_player :: "state \<Rightarrow> nat \<Rightarrow> AUDIO_PLAYER \<Rightarrow> state" where
  "put_player s i p = s\<lparr>g_players := (g_players s)(i := Some p)\<rparr>"

section \<open>Conversions of C\<close>

text \<open>
  A floating value converted to an integer type is truncated towards zero; the
  conversion is undefined when the truncated value does not fit the type.
\<close>

definition trunc :: "real \<Rightarrow> int" where
  "trunc x = (if 0 \<le> x then \<lfloor>x\<rfloor> else \<lceil>x\<rceil>)"

definition float_to_sf_count :: "real \<Rightarrow> error + int" where
  "float_to_sf_count x =
     (if - (2 ^ 63) \<le> trunc x \<and> trunc x < 2 ^ 63 then Inr (trunc x) else Inl FloatOutOfRange)"

definition float_to_uint :: "real \<Rightarrow> error + nat" where
  "float_to_uint x =
     (if 0 \<le> trunc x \<and> trunc x < 2 ^ 32 then Inr (nat (trunc x)) else Inl FloatOutOfRange)"

definition float_to_size :: "real \<Rightarrow> error + nat" where
  "float_to_size x =
     (if 0 \<le> trunc x \<and> trunc x < 2 ^ 64 then Inr (nat (trunc x)) else Inl FloatOutOfRange)"

text \<open>A \<^verbatim>\<open>sf_count_t\<close> read as \<^verbatim>\<open>size_t\<close>, and a 64-bit pattern read as \<^verbatim>\<open>sf_count_t\<close>.\<close>

definition sf_count_to_size :: "int \<Rightarrow> nat" where
  "sf_count_to_size i = nat (i mod 2 ^ 64)"

definition size_to_sf_count :: "int \<Rightarrow> int" where
  "size_to_sf_count i = (let m = i mod 2 ^ 64 in if m < 2 ^ 63 then m else m - 2 ^ 64)"

text \<open>
  \<^verbatim>\<open>jack_nframes_t frames = pPlayer->sf_info.samplerate * time\<close> in the two loop setters:
  the sample rate is converted to \<^verbatim>\<open>float\<close>, the product is a \<^verbatim>\<open>float\<close>, and the product
  is converted to the unsigned 32-bit \<^verbatim>\<open>jack_nframes_t\<close>. \<open>time\<close> is whatever the caller
  passes. When the product is not a number or its truncation does not fit 32 bits, C
  leaves the result of the conversion open and the build yields some frame count, with
  which the setter goes on: x86-64 keeps the low 32 bits of the truncated value, ARM
  saturates. \<open>wrap\<close> is that conversion of the build; the setters are described for
  every \<open>wrap\<close>. (A \<^verbatim>\<open>float\<close> that a caller passes is a number of single precision; the
  definitions take every real number.)
\<close>

definition float_to_nframes :: "(c_float \<Rightarrow> 32 word) \<Rightarrow> c_float \<Rightarrow> 32 word" where
  "float_to_nframes wrap v =
     (case v of
        Num x \<Rightarrow> if 0 \<le> trunc x \<and> trunc x < 2 ^ 32 then word_of_int (trunc x) else wrap v
      | _ \<Rightarrow> wrap v)"

definition frames_of_time :: "(c_float \<Rightarrow> 32 word) \<Rightarrow> int \<Rightarrow> c_float \<Rightarrow> 32 word" where
  "frames_of_time wrap samplerate time =
     float_to_nframes wrap (cf_mul (f32 (real_of_int samplerate)) time)"


section \<open>Getters used by the notification pass\<close>

definition get_position :: "state \<Rightarrow> int \<Rightarrow> error + real" where
  "get_position s player_handle =
     bindE (get_player s player_handle) (\<lambda>pPlayer.
       case pPlayer of
         None \<Rightarrow> Inr 0
       | Some p \<Rightarrow>
           if file_open p = 2 \<and> g_samplerate s \<noteq> 0
           then Inr (real (unat (play_pos_frames p)) / real (g_samplerate s))
           else Inr 0)"

definition get_loop_start_time :: "state \<Rightarrow> int \<Rightarrow> error + real" where
  "get_loop_start_time s player_handle =
     bindE (get_player s player_handle) (\<lambda>pPlayer.
       case pPlayer of
         None \<Rightarrow> Inr 0
       | Some p \<Rightarrow>
           if sf_samplerate (sf_info p) = 0 then Inr 0
           else Inr (real_of_int (loop_start p) / real_of_int (sf_samplerate (sf_info p))))"

definition get_loop_end_time :: "state \<Rightarrow> int \<Rightarrow> error + real" where
  "get_loop_end_time s player_handle =
     bindE (get_player s player_handle) (\<lambda>pPlayer.
       case pPlayer of
         None \<Rightarrow> Inr 0
       | Some p \<Rightarrow>
           if sf_samplerate (sf_info p) = 0 then Inr 0
           else Inr (real_of_int (loop_end p) / real_of_int (sf_samplerate (sf_info p))))"

definition get_duration :: "state \<Rightarrow> int \<Rightarrow> error + real" where
  "get_duration s player_handle =
     bindE (get_player s player_handle) (\<lambda>pPlayer.
       case pPlayer of
         None \<Rightarrow> Inr 0
       | Some p \<Rightarrow>
           if file_open p = 2 \<and> sf_samplerate (sf_info p) \<noteq> 0
           then Inr (real_of_int (sf_frames (sf_info p)) / real_of_int (sf_samplerate (sf_info p)))
           else Inr 0)"

section \<open>The notification pass\<close>

text \<open>
  \<^verbatim>\<open>if(pPlayer->cb_fn) cb_fn(cb_object, handle, tag, value)\<close>: the callback is code of
  the library's user; the model records the call and takes it not to call back into
  the library. The value is a \<^verbatim>\<open>float\<close>.
\<close>

definition invoke_cb :: "AUDIO_PLAYER \<Rightarrow> notify \<Rightarrow> c_float \<Rightarrow> state \<Rightarrow> state" where
  "invoke_cb p tag v s =
     (case cb_fn p of
        None \<Rightarrow> s
      | Some f \<Rightarrow>
          s\<lparr>cb_log := cb_log s @
            [\<lparr>call_fn = f, call_object = cb_object p, call_handle = handle p,
              call_tag = tag, call_value = v\<rparr>]\<rparr>)"

text \<open>
  \<^verbatim>\<open>send_notifications\<close> is a sequence of nine tests, one per field; each is a
  definition here, on the state and the slot \<open>i\<close> that \<^verbatim>\<open>pPlayer\<close> points to.
\<close>

definition at_player :: "state \<Rightarrow> nat \<Rightarrow> (AUDIO_PLAYER \<Rightarrow> error + 'a) \<Rightarrow> error + 'a" where
  "at_player s i f = (case g_players s i of None \<Rightarrow> Inl InvalidPlayer | Some p \<Rightarrow> f p)"

definition notify_transport :: "state \<Rightarrow> nat \<Rightarrow> notify \<Rightarrow> error + state" where
  "notify_transport s i param = at_player s i (\<lambda>p.
     if (param = NOTIFY_ALL \<or> param = NOTIFY_TRANSPORT) \<and> last_play_state p \<noteq> play_state p
     then (let p' = p\<lparr>last_play_state := play_state p\<rparr>
           in Inr (invoke_cb p' NOTIFY_TRANSPORT (Num (real (unat (play_state p')))) (put_player s i p')))
     else Inr s)"

definition notify_position :: "state \<Rightarrow> nat \<Rightarrow> notify \<Rightarrow> error + state" where
  "notify_position s i param = at_player s i (\<lambda>p.
     if param = NOTIFY_ALL \<or> param = NOTIFY_POSITION
     then bindE (get_position s (int (handle p))) (\<lambda>pos.
            if \<bar>pos - last_position p\<bar> \<ge> pos_notify_delta p
            then bindE (get_position s (int (handle p))) (\<lambda>pos'.
                   let p' = p\<lparr>last_position := pos'\<rparr>
                   in Inr (invoke_cb p' NOTIFY_POSITION (Num (last_position p')) (put_player s i p')))
            else Inr s)
     else Inr s)"

definition notify_gain :: "state \<Rightarrow> nat \<Rightarrow> notify \<Rightarrow> error + state" where
  "notify_gain s i param = at_player s i (\<lambda>p.
     if (param = NOTIFY_ALL \<or> param = NOTIFY_GAIN)
          \<and> cf_le (Num (1 / 100)) (cf_abs (cf_sub (gain p) (last_gain p)))
     then (let p' = p\<lparr>last_gain := gain p\<rparr>
           in Inr (invoke_cb p' NOTIFY_GAIN (gain p') (put_player s i p')))
     else Inr s)"

definition notify_loop :: "state \<Rightarrow> nat \<Rightarrow> notify \<Rightarrow> error + state" where
  "notify_loop s i param = at_player s i (\<lambda>p.
     if (param = NOTIFY_ALL \<or> param = NOTIFY_LOOP) \<and> loop p \<noteq> last_loop p
     then (let p' = p\<lparr>last_loop := loop p\<rparr>
           in Inr (invoke_cb p' NOTIFY_LOOP (Num (real (unat (loop p')))) (put_player s i p')))
     else Inr s)"

definition notify_loop_start :: "state \<Rightarrow> nat \<Rightarrow> notify \<Rightarrow> error + state" where
  "notify_loop_start s i param = at_player s i (\<lambda>p.
     if (param = NOTIFY_ALL \<or> param = NOTIFY_LOOP_START) \<and> loop_start p \<noteq> last_loop_start p
     then (let p' = p\<lparr>last_loop_start := loop_start p\<rparr>; s' = put_player s i p'
           in case cb_fn p' of
                None \<Rightarrow> Inr s'
              | Some f \<Rightarrow> bindE (get_loop_start_time s' (int (handle p'))) (\<lambda>v.
                  Inr (invoke_cb p' NOTIFY_LOOP_START (Num v) s')))
     else Inr s)"

definition notify_loop_end :: "state \<Rightarrow> nat \<Rightarrow> notify \<Rightarrow> error + state" where
  "notify_loop_end s i param = at_player s i (\<lambda>p.
     if (param = NOTIFY_ALL \<or> param = NOTIFY_LOOP_END) \<and> loop_end p \<noteq> last_loop_end p
     then (let p' = p\<lparr>last_loop_end := loop_end p\<rparr>; s' = put_player s i p'
           in case cb_fn p' of
                None \<Rightarrow> Inr s'
              | Some f \<Rightarrow> bindE (get_loop_end_time s' (int (handle p'))) (\<lambda>v.
                  Inr (invoke_cb p' NOTIFY_LOOP_END (Num v) s')))
     else Inr s)"

definition notify_track_a :: "state \<Rightarrow> nat \<Rightarrow> notify \<Rightarrow> error + state" where
  "notify_track_a s i param = at_player s i (\<lambda>p.
     if (param = NOTIFY_ALL \<or> param = NOTIFY_TRACK_A) \<and> track_a p \<noteq> last_track_a p
     then (let p' = p\<lparr>last_track_a := track_a p\<rparr>
           in Inr (invoke_cb p' NOTIFY_TRACK_A (Num (real_of_int (track_a p'))) (put_player s i p')))
     else Inr s)"

definition notify_track_b :: "state \<Rightarrow> nat \<Rightarrow> notify \<Rightarrow> error + state" where
  "notify_track_b s i param = at_player s i (\<lambda>p.
     if (param = NOTIFY_ALL \<or> param = NOTIFY_TRACK_B) \<and> track_b p \<noteq> last_track_b p
     then (let p' = p\<lparr>last_track_b := track_b p\<rparr>
           in Inr (invoke_cb p' NOTIFY_TRACK_B (Num (real_of_int (track_b p'))) (put_player s i p')))
     else Inr s)"

definition notify_quality :: "state \<Rightarrow> nat \<Rightarrow> notify \<Rightarrow> error + state" where
  "notify_quality s i param = at_player s i (\<lambda>p.
     if (param = NOTIFY_ALL \<or> param = NOTIFY_QUALITY) \<and> src_quality p \<noteq> last_src_quality p
     then (let p' = p\<lparr>last_src_quality := src_quality p\<rparr>
           in Inr (invoke_cb p' NOTIFY_QUALITY (Num (real (src_quality p'))) (put_player s i p')))
     else Inr s)"

definition notify_debug :: "state \<Rightarrow> nat \<Rightarrow> notify \<Rightarrow> error + state" where
  "notify_debug s i param = at_player s i (\<lambda>p.
     if (param = NOTIFY_ALL \<or> param = NOTIFY_DEBUG) \<and> g_debug s \<noteq> g_last_debug s
     then (let s' = s\<lparr>g_last_debug := g_debug s\<rparr>
           in Inr (invoke_cb p NOTIFY_DEBUG (Num (real (unat (g_debug s')))) s'))
     else Inr s)"

text \<open>
  \<^verbatim>\<open>send_notifications(pPlayer, param)\<close>; \<open>pPlayer\<close> is \<open>None\<close> for a null pointer and
  \<open>Some i\<close> for the pointer stored in slot \<open>i\<close>.
\<close>

definition send_notifications :: "state \<Rightarrow> nat option \<Rightarrow> notify \<Rightarrow> error + state" where
  "send_notifications s pPlayer param =
     (case pPlayer of
        None \<Rightarrow> Inr s
      | Some i \<Rightarrow> at_player s i (\<lambda>p.
          if file_open p \<noteq> 2 then Inr s
          else
            bindE (notify_transport s i param) (\<lambda>s1.
            bindE (notify_position s1 i param) (\<lambda>s2.
            bindE (notify_gain s2 i param) (\<lambda>s3.
            bindE (notify_loop s3 i param) (\<lambda>s4.
            bindE (notify_loop_start s4 i param) (\<lambda>s5.
            bindE (notify_loop_end s5 i param) (\<lambda>s6.
            bindE (notify_track_a s6 i param) (\<lambda>s7.
            bindE (notify_track_b s7 i param) (\<lambda>s8.
            bindE (notify_quality s8 i param) (\<lambda>s9.
            notify_debug s9 i param)))))))))))"

text \<open>The pointer a successful \<^verbatim>\<open>get_player(h)\<close> returned: slot \<open>h\<close>, or null.\<close>

definition ptr_of :: "int \<Rightarrow> AUDIO_PLAYER option \<Rightarrow> nat option" where
  "ptr_of player_handle pPlayer = (case pPlayer of None \<Rightarrow> None | Some p \<Rightarrow> Some (nat player_handle))"

section \<open>Position and transport\<close>

text \<open>
  \<^verbatim>\<open>set_position\<close>. In the branch without loop, \<^verbatim>\<open>frames >= pPlayer->frames\<close> compares a
  \<^verbatim>\<open>sf_count_t\<close> with a \<^verbatim>\<open>size_t\<close>, so both are read as unsigned 64-bit values, and
  \<^verbatim>\<open>pPlayer->frames - 1\<close> wraps at zero. The result is stored in the 32-bit
  \<^verbatim>\<open>play_pos_frames\<close>.
\<close>

definition set_position :: "state \<Rightarrow> int \<Rightarrow> real \<Rightarrow> error + state" where
  "set_position s player_handle time =
     bindE (get_player s player_handle) (\<lambda>pPlayer.
       case pPlayer of
         None \<Rightarrow> Inr s
       | Some p \<Rightarrow>
           if file_open p \<noteq> 2 then Inr s
           else
             bindE (float_to_sf_count (time * real (g_samplerate s))) (\<lambda>frames0.
               let frames1 =
                     (if loop p \<noteq> 0
                      then (let f = (if frames0 > loop_end_src p then loop_end_src p else frames0)
                            in if f < loop_start_src p then loop_start_src p else f)
                      else (if sf_count_to_size frames0 \<ge> frames p
                            then size_to_sf_count (int (frames p) - 1)
                            else frames0))
               in bindE (rb_reset_ptr (ringbuffer_b p)) (\<lambda>rb_b.
                  bindE (rb_reset_ptr (ringbuffer_a p)) (\<lambda>rb_a.
                    send_notifications
                      (put_player s (nat player_handle)
                         (p\<lparr>play_pos_frames := word_of_int frames1,
                            file_read_status := SEEKING,
                            ringbuffer_b := rb_b,
                            ringbuffer_a := rb_a\<rparr>))
                      (Some (nat player_handle)) NOTIFY_POSITION))))"

definition start_playback :: "state \<Rightarrow> int \<Rightarrow> error + state" where
  "start_playback s player_handle =
     bindE (get_player s player_handle) (\<lambda>pPlayer.
       send_notifications
         (case pPlayer of
            None \<Rightarrow> s
          | Some p \<Rightarrow>
              if g_jack_client s \<and> file_open p = 2 \<and> play_state p \<noteq> PLAYING
              then put_player s (nat player_handle) (p\<lparr>play_state := STARTING\<rparr>)
              else s)
         (ptr_of player_handle pPlayer) NOTIFY_TRANSPORT)"

definition stop_playback :: "state \<Rightarrow> int \<Rightarrow> error + state" where
  "stop_playback s player_handle =
     bindE (get_player s player_handle) (\<lambda>pPlayer.
       send_notifications
         (case pPlayer of
            None \<Rightarrow> s
          | Some p \<Rightarrow>
              if play_state p \<noteq> STOPPED
              then put_player s (nat player_handle) (p\<lparr>play_state := STOPPING\<rparr>)
              else s)
         (ptr_of player_handle pPlayer) NOTIFY_TRANSPORT)"

definition get_playback_state :: "state \<Rightarrow> int \<Rightarrow> error + 8 word" where
  "get_playback_state s player_handle =
     bindE (get_player s player_handle) (\<lambda>pPlayer.
       case pPlayer of
         None \<Rightarrow> Inr STOPPED
       | Some p \<Rightarrow> if file_open p \<noteq> 2 then Inr STOPPED else Inr (play_state p))"

section \<open>The worker: opening and leaving\<close>

text \<open>
  What the collaborators answer during one run of \<^verbatim>\<open>file_thread_fn\<close>: whether
  \<^verbatim>\<open>sf_open\<close> returned a file, the \<^verbatim>\<open>SF_INFO\<close> it left behind, whether \<^verbatim>\<open>src_new\<close>
  returned a converter, and whether \<^verbatim>\<open>sf_close\<close> returned 0.
\<close>

record worker_env =
  sf_open_ok :: bool
  sf_open_info :: SF_INFO
  src_new_ok :: bool
  sf_close_ok :: bool

text \<open>
  \<^verbatim>\<open>jack_ringbuffer_create(output_buffer_size * buffer_count * sizeof(float))\<close>: the
  product of the two \<^verbatim>\<open>unsigned int\<close> wraps at 32 bits.
\<close>

definition jack_ringbuffer_create :: "nat \<Rightarrow> nat \<Rightarrow> jack_ringbuffer" where
  "jack_ringbuffer_create obs cnt = \<lparr>rb_size = ((obs * cnt) mod 2 ^ 32) * 4, rb_fill = 0\<rparr>"

text \<open>The code after the worker's loop, \<open>pFile\<close> telling whether a file was opened.\<close>

definition file_thread_exit :: "bool \<Rightarrow> bool \<Rightarrow> AUDIO_PLAYER \<Rightarrow> AUDIO_PLAYER" where
  "file_thread_exit pFile close_ok p =
     p\<lparr>play_state := STOPPED,
       filename := (if pFile \<and> close_ok then [] else filename p),
       play_pos_frames := 0,
       cb_fn := None,
       cb_object := None,
       ringbuffer_a := None,
       ringbuffer_b := None\<rparr>"

text \<open>
  The worker from its start to the point where \<^verbatim>\<open>file_open\<close> leaves 1: either the
  loop is entered (\<^verbatim>\<open>file_open = 2\<close>; the worker then runs beside the caller), or the
  open failed and the worker has left through the code after the loop. A sample rate
  of 0 makes \<^verbatim>\<open>src_ratio\<close> infinite or not a number, which no buffer size can hold.
\<close>

definition file_thread_init :: "nat \<Rightarrow> worker_env \<Rightarrow> AUDIO_PLAYER \<Rightarrow> error + AUDIO_PLAYER" where
  "file_thread_init samplerate env p =
     (let info = sf_info p;
          p1 = p\<lparr>cb_fn := None, cb_object := None, last_play_state := - 1, last_position := - 1,
                 play_pos_frames := 0, loop_start := 0, last_loop_start := - 1,
                 loop_end := sf_frames info, last_loop_end := - 1, loop_loaded := 0,
                 file_read_pos := 0, pos_notify_delta := 1 / 10, file_read_status := SEEKING\<rparr>
      in if sf_samplerate info = 0 then Inl FloatOutOfRange
         else
           (let r0 = real samplerate / real_of_int (sf_samplerate info);
                r = (if r0 < 1 / 10 then 1 else r0)
            in bindE (float_to_uint (r * real (input_buffer_size p1))) (\<lambda>obs.
               bindE (float_to_size (real_of_int (sf_frames info) * r)) (\<lambda>fr.
               bindE (float_to_sf_count (real_of_int (loop_end p1) * r)) (\<lambda>le_src.
               bindE (float_to_sf_count (real_of_int (loop_start p1) * r)) (\<lambda>ls_src.
                 Inr (p1\<lparr>src_ratio := r,
                          output_buffer_size := obs,
                          ringbuffer_a := Some (jack_ringbuffer_create obs (buffer_count p1)),
                          ringbuffer_b := Some (jack_ringbuffer_create obs (buffer_count p1)),
                          file_open := (if src_new_ok env then 2 else 0),
                          pitch_shift := 1,
                          pitch_bend := 8192,
                          frames := fr,
                          loop_end_src := le_src,
                          loop_start_src := ls_src\<rparr>)))))))"

definition file_thread_open :: "nat \<Rightarrow> worker_env \<Rightarrow> AUDIO_PLAYER \<Rightarrow> error + AUDIO_PLAYER" where
  "file_thread_open samplerate env p =
     (let p0 = p\<lparr>sf_info := sf_open_info env, ringbuffer_a := None, ringbuffer_b := None\<rparr>;
          p1 = (if sf_open_ok env \<and> 1 \<le> sf_channels (sf_info p0) then p0 else p0\<lparr>file_open := 0\<rparr>);
          p2 = (if sf_channels (sf_info p1) < 0 then p1\<lparr>file_open := 0\<rparr> else p1)
      in if file_open p2 \<noteq> 0
         then bindE (file_thread_init samplerate env p2) (\<lambda>p3.
                if file_open p3 = 2 then Inr p3
                else Inr (file_thread_exit (sf_open_ok env) (sf_close_ok env) p3))
         else Inr (file_thread_exit (sf_open_ok env) (sf_close_ok env) p2))"

text \<open>
  \<open>open_fits samplerate info ibs\<close>: the sizes that the worker computes after it has
  opened a file with the header \<open>info\<close>, at the sample rate \<open>samplerate\<close> of the server
  and for the input buffer size \<open>ibs\<close>, are numbers that fit their types.
\<close>

definition open_fits :: "nat \<Rightarrow> SF_INFO \<Rightarrow> nat \<Rightarrow> bool" where
  "open_fits samplerate info ibs =
     (let r0 = real samplerate / real_of_int (sf_samplerate info);
          r = (if r0 < 1 / 10 then 1 else r0)
      in sf_samplerate info \<noteq> 0 \<and> 0 \<le> sf_frames info \<and> r * real ibs < 2 ^ 32
         \<and> real_of_int (sf_frames info) * r < 2 ^ 63)"

section \<open>load and unload\<close>

text \<open>
  \<^verbatim>\<open>unload\<close>. \<^verbatim>\<open>pthread_join\<close> waits for the worker, which sees \<^verbatim>\<open>file_open = 0\<close> at
  the head of its loop and leaves; a worker is in its loop exactly when the file was
  open (\<^verbatim>\<open>file_open = 2\<close>) before. \<open>close_ok\<close> is the answer of the worker's \<^verbatim>\<open>sf_close\<close>.
  When \<^verbatim>\<open>file_open\<close> was neither 0 nor 2 no worker is in its loop: this is the call
  that \<^verbatim>\<open>load\<close> makes after \<^verbatim>\<open>pthread_create\<close> has failed, \<^verbatim>\<open>file_thread\<close> then holds no
  id of a thread that can be joined, and the join is an error.
\<close>

definition unload :: "bool \<Rightarrow> state \<Rightarrow> int \<Rightarrow> error + state" where
  "unload close_ok s player_handle =
     bindE (get_player s player_handle) (\<lambda>pPlayer.
       case pPlayer of
         None \<Rightarrow> Inr s
       | Some p \<Rightarrow>
           if file_open p = 0 then Inr s
           else
             bindE (stop_playback s player_handle) (\<lambda>s1.
               at_player s1 (nat player_handle) (\<lambda>p1.
                 let p2 = p1\<lparr>file_open := 0, cb_fn := None\<rparr>
                 in if file_open p1 \<noteq> 2 then Inl InvalidThread
                    else (let p3 = file_thread_exit True close_ok p2
                          in Inr (put_player s1 (nat player_handle) (p3\<lparr>filename := []\<rparr>))))))"

text \<open>
  \<^verbatim>\<open>load\<close>, in three parts. \<open>load_reset\<close> is the function up to and including
  \<^verbatim>\<open>pPlayer->track_b = 0\<close>; its result is \<open>None\<close> when the handle names no player
  (\<^verbatim>\<open>load\<close> then returns 0). \<open>load_prepare\<close> goes on up to and including
  \<^verbatim>\<open>pPlayer->file_open = 1\<close>, the state in which the worker thread is created.
  \<^verbatim>\<open>filename\<close> is a \<^verbatim>\<open>char[128]\<close>, so \<^verbatim>\<open>strcpy\<close> of a longer name writes past it.
\<close>

definition load_reset :: "bool \<Rightarrow> state \<Rightarrow> int \<Rightarrow> error + state option" where
  "load_reset close_ok s player_handle =
     bindE (get_player s player_handle) (\<lambda>pPlayer.
       case pPlayer of
         None \<Rightarrow> Inr None
       | Some p \<Rightarrow>
           bindE (unload close_ok s player_handle) (\<lambda>s1.
             at_player s1 (nat player_handle) (\<lambda>p1.
               Inr (Some (put_player s1 (nat player_handle)
                            (p1\<lparr>cb_object := None, track_a := 0, track_b := 0\<rparr>))))))"

definition load_prepare :: "bool \<Rightarrow> state \<Rightarrow> int \<Rightarrow> string \<Rightarrow> error + state option" where
  "load_prepare close_ok s player_handle fname =
     bindE (load_reset close_ok s player_handle) (\<lambda>reset.
       case reset of
         None \<Rightarrow> Inr None
       | Some s1 \<Rightarrow>
           at_player s1 (nat player_handle) (\<lambda>p1.
             if 128 \<le> length fname then Inl OutOfBoundsWrite
             else Inr (Some (put_player s1 (nat player_handle)
                               (p1\<lparr>filename := fname, file_open := 1\<rparr>)))))"

text \<open>
  The whole of \<^verbatim>\<open>load\<close>. \<open>thread_ok\<close> tells whether \<^verbatim>\<open>pthread_create\<close> succeeded; when
  it did not, \<^verbatim>\<open>load\<close> calls \<^verbatim>\<open>unload\<close> with \<^verbatim>\<open>file_open = 1\<close>. Otherwise the caller
  waits until \<^verbatim>\<open>file_open\<close> is no longer 1, that is until the worker has opened the file
  or given up. The result is the state and the value returned.
\<close>

definition load ::
  "bool \<Rightarrow> worker_env \<Rightarrow> state \<Rightarrow> int \<Rightarrow> string \<Rightarrow> nat option \<Rightarrow> nat option \<Rightarrow> error + state \<times> 8 word"
where
  "load thread_ok env s player_handle fname cb_object' cb_fn' =
     bindE (load_prepare (sf_close_ok env) s player_handle fname) (\<lambda>prepared.
       case prepared of
         None \<Rightarrow> Inr (s, 0)
       | Some s2 \<Rightarrow>
           at_player s2 (nat player_handle) (\<lambda>p2.
             if \<not> thread_ok
             then bindE (unload (sf_close_ok env) s2 player_handle) (\<lambda>s3. Inr (s3, 0))
             else
               bindE (file_thread_open (g_samplerate s2) env p2) (\<lambda>p3.
                 let p4 = (if file_open p3 \<noteq> 0
                           then p3\<lparr>cb_object := cb_object', cb_fn := cb_fn'\<rparr>
                           else p3)
                 in Inr (put_player s2 (nat player_handle) p4,
                         if file_open p4 = 2 then 1 else 0))))"

section \<open>Loop bounds\<close>

text \<open>
  \<^verbatim>\<open>set_loop_start_time\<close>: \<^verbatim>\<open>frames\<close> is a \<^verbatim>\<open>jack_nframes_t\<close>; it is compared with the
  \<^verbatim>\<open>sf_count_t\<close> \<^verbatim>\<open>loop_end\<close> as a 64-bit signed value.
\<close>

definition set_loop_start_time ::
  "(c_float \<Rightarrow> 32 word) \<Rightarrow> state \<Rightarrow> int \<Rightarrow> c_float \<Rightarrow> error + state"
where
  "set_loop_start_time wrap s player_handle time =
     bindE (get_player s player_handle) (\<lambda>pPlayer.
       case pPlayer of
         None \<Rightarrow> Inr s
       | Some p \<Rightarrow>
           (let frames' = frames_of_time wrap (sf_samplerate (sf_info p)) time
            in if uint frames' \<ge> loop_end p then Inr s
               else
                 bindE (float_to_sf_count (real_of_int (uint frames') * src_ratio p)) (\<lambda>ls_src.
                   let p' = p\<lparr>loop_start := uint frames', loop_start_src := ls_src\<rparr>;
                       s' = put_player s (nat player_handle) p'
                   in if uint (play_pos_frames p') < loop_start_src p'
                      then bindE (get_position s' player_handle) (\<lambda>pos.
                             set_position s' player_handle pos)
                      else Inr s')))"

text \<open>
  \<^verbatim>\<open>set_loop_end_time\<close>: the second test compares \<^verbatim>\<open>frames\<close> with the \<^verbatim>\<open>size_t\<close>
  \<^verbatim>\<open>pPlayer->frames\<close>, the frame count after sample rate conversion.
\<close>

definition set_loop_end_time ::
  "(c_float \<Rightarrow> 32 word) \<Rightarrow> state \<Rightarrow> int \<Rightarrow> c_float \<Rightarrow> error + state"
where
  "set_loop_end_time wrap s player_handle time =
     bindE (get_player s player_handle) (\<lambda>pPlayer.
       case pPlayer of
         None \<Rightarrow> Inr s
       | Some p \<Rightarrow>
           (let frames' = frames_of_time wrap (sf_samplerate (sf_info p)) time
            in if uint frames' \<le> loop_start p \<or> unat frames' \<ge> frames p then Inr s
               else
                 bindE (float_to_sf_count (real_of_int (uint frames') * src_ratio p)) (\<lambda>le_src.
                   let p' = p\<lparr>loop_end := uint frames', loop_end_src := le_src\<rparr>;
                       s' = put_player s (nat player_handle) p'
                   in if uint (play_pos_frames p') > loop_end_src p'
                      then bindE (get_position s' player_handle) (\<lambda>pos.
                             set_position s' player_handle pos)
                      else Inr s')))"

section \<open>Gain and track selection\<close>

text \<open>
  \<^verbatim>\<open>set_gain\<close>: the test is \<^verbatim>\<open>gain < 0 || gain > 2\<close>, on the \<^verbatim>\<open>float\<close> the caller passes.
\<close>

definition set_gain :: "state \<Rightarrow> int \<Rightarrow> c_float \<Rightarrow> error + state" where
  "set_gain s player_handle gain' =
     bindE (get_player s player_handle) (\<lambda>pPlayer.
       case pPlayer of
         None \<Rightarrow> Inr s
       | Some p \<Rightarrow>
           if file_open p \<noteq> 2 then Inr s
           else if cf_less gain' (Num 0) \<or> cf_less (Num 2) gain' then Inr s
           else send_notifications (put_player s (nat player_handle) (p\<lparr>gain := gain'\<rparr>))
                  (Some (nat player_handle)) NOTIFY_GAIN)"

definition get_gain :: "state \<Rightarrow> int \<Rightarrow> error + c_float" where
  "get_gain s player_handle =
     bindE (get_player s player_handle) (\<lambda>pPlayer.
       case pPlayer of
         None \<Rightarrow> Inr (Num 0)
       | Some p \<Rightarrow> if file_open p \<noteq> 2 then Inr (Num 0) else Inr (gain p))"

definition set_track_a :: "state \<Rightarrow> int \<Rightarrow> int \<Rightarrow> error + state" where
  "set_track_a s player_handle track =
     bindE (get_player s player_handle) (\<lambda>pPlayer.
       case pPlayer of
         None \<Rightarrow> Inr s
       | Some p \<Rightarrow>
           if file_open p \<noteq> 2 then Inr s
           else
             (let p' = (if file_open p = 2 \<and> track < sf_channels (sf_info p)
                        then (if sf_channels (sf_info p) = 1 then p\<lparr>track_a := 0\<rparr>
                              else p\<lparr>track_a := track\<rparr>)
                        else p);
                  s' = put_player s (nat player_handle) p'
              in bindE (get_position s' player_handle) (\<lambda>pos.
                 bindE (set_position s' player_handle pos) (\<lambda>s''.
                   send_notifications s'' (Some (nat player_handle)) NOTIFY_TRACK_A))))"

definition set_track_b :: "state \<Rightarrow> int \<Rightarrow> int \<Rightarrow> error + state" where
  "set_track_b s player_handle track =
     bindE (get_player s player_handle) (\<lambda>pPlayer.
       case pPlayer of
         None \<Rightarrow> Inr s
       | Some p \<Rightarrow>
           if file_open p \<noteq> 2 then Inr s
           else
             (let p' = (if file_open p = 2 \<and> track < sf_channels (sf_info p)
                        then (if sf_channels (sf_info p) = 1 then p\<lparr>track_b := 0\<rparr>
                              else p\<lparr>track_b := track\<rparr>)
                        else p);
                  s' = put_player s (nat player_handle) p'
              in bindE (get_position s' player_handle) (\<lambda>pos.
                 bindE (set_position s' player_handle pos) (\<lambda>s''.
                   send_notifications s'' (Some (nat player_handle)) NOTIFY_TRACK_B))))"

definition get_track_a :: "state \<Rightarrow> int \<Rightarrow> error + int" where
  "get_track_a s player_handle =
     bindE (get_player s player_handle) (\<lambda>pPlayer.
       case pPlayer of
         None \<Rightarrow> Inr 0
       | Some p \<Rightarrow> if file_open p \<noteq> 2 then Inr 0 else Inr (track_a p))"

definition get_track_b :: "state \<Rightarrow> int \<Rightarrow> error + int" where
  "get_track_b s player_handle =
     bindE (get_player s player_handle) (\<lambda>pPlayer.
       case pPlayer of
         None \<Rightarrow> Inr 0
       | Some p \<Rightarrow> if file_open p \<noteq> 2 then Inr 0 else Inr (track_b p))"

section \<open>The registry\<close>

text \<open>
  \<^verbatim>\<open>lib_init\<close>: an empty table; \<open>rate\<close> is what \<^verbatim>\<open>jack_get_sample_rate\<close> answers and
  \<open>client\<close> whether \<^verbatim>\<open>jack_client_open\<close> returned a client.
\<close>

definition lib_init :: "bool \<Rightarrow> nat \<Rightarrow> state" where
  "lib_init client rate =
     \<lparr>g_players = (\<lambda>i. None), g_jack_client = client, g_samplerate = rate,
      g_debug = 0, g_last_debug = 0, cb_log = []\<rparr>"

text \<open>
  \<^verbatim>\<open>add_player\<close>. \<open>mem\<close> is the answer of \<^verbatim>\<open>malloc\<close>: \<open>None\<close> for a null pointer,
  \<open>Some m\<close> for a block whose content before initialisation is \<open>m\<close>. \<open>port_a\<close> and
  \<open>port_b\<close> are the answers of \<^verbatim>\<open>jack_port_register\<close>. The value \<^verbatim>\<open>SRC_SINC_FASTEST\<close>
  of libsamplerate is 2.
\<close>

definition add_player ::
  "AUDIO_PLAYER option \<Rightarrow> nat option \<Rightarrow> nat option \<Rightarrow> state \<Rightarrow> int \<Rightarrow> error + state \<times> int"
where
  "add_player mem port_a port_b s player_handle =
     (if 0 \<le> player_handle \<and> player_handle < MAX_PLAYERS \<and> g_players s (nat player_handle) = None
      then
        (case mem of
           None \<Rightarrow> Inr (s, 0)
         | Some m \<Rightarrow>
             (let p = m\<lparr>file_open := 0, file_read_status := IDLE, play_state := STOPPED,
                         loop := 0, play_pos_frames := 0, src_quality := 2, filename := [],
                         gain := Num 1, track_a := 0, last_track_a := 0, last_track_b := 0,
                         track_b := 0, handle := nat player_handle, input_buffer_size := 48000,
                         buffer_count := 5, frames := 0, loop_start := 0, loop_start_src := 0,
                         loop_end := 48000\<rparr>
              in bindE (float_to_sf_count (real_of_int (loop_end p) * src_ratio p)) (\<lambda>le_src.
                 bindE (float_to_sf_count (real_of_int (loop_start p) * src_ratio p)) (\<lambda>ls_src.
                   let p' = p\<lparr>loop_start_src := ls_src, loop_end_src := loop_end p,
                                last_note_played := 0\<rparr>
                   in case port_a of
                        None \<Rightarrow> Inr (s, 0)
                      | Some a \<Rightarrow>
                          (case port_b of
                             None \<Rightarrow> Inr (s, 0)
                           | Some b \<Rightarrow>
                               Inr (put_player s (nat player_handle)
                                      (p'\<lparr>jack_out_a := a, jack_out_b := b\<rparr>), 1))))))
      else Inr (s, 0))"

section \<open>The worker: demultiplexing a block into the ring buffers\<close>

text \<open>
  \<^verbatim>\<open>pBufferOut\<close> is a list of samples, frame after frame, one sample per channel of the
  file; a read past its end is an error.
\<close>

definition buf_at :: "real list \<Rightarrow> nat \<Rightarrow> error + real" where
  "buf_at buf i = (if i < length buf then Inr (buf ! i) else Inl OutOfBoundsRead)"

text \<open>
  The two mixing loops of the demultiplexer,
  \<^verbatim>\<open>for(track = 0; track < channels; track += 2) fA += pBufferOut[sample + track] / (channels / 2)\<close>
  and
  \<^verbatim>\<open>for(track = 0; track + 1 < channels; track += 2) fB += pBufferOut[sample + track + 1] / (channels / 2)\<close>.
  The divisor is an integer division of the channel count.
\<close>

function mix_a :: "real list \<Rightarrow> nat \<Rightarrow> int \<Rightarrow> int \<Rightarrow> real \<Rightarrow> error + real" where
  "mix_a buf sample channels track fA =
     (if track < channels
      then (case buf_at buf (sample + nat track) of
              Inl e \<Rightarrow> Inl e
            | Inr x \<Rightarrow> mix_a buf sample channels (track + 2) (fA + x / real_of_int (channels div 2)))
      else Inr fA)"
  by pat_completeness auto
termination
  by (relation "measure (\<lambda>(buf, sample, channels, track, fA). nat (channels - track))") auto

function mix_b :: "real list \<Rightarrow> nat \<Rightarrow> int \<Rightarrow> int \<Rightarrow> real \<Rightarrow> error + real" where
  "mix_b buf sample channels track fB =
     (if track + 1 < channels
      then (case buf_at buf (sample + nat track + 1) of
              Inl e \<Rightarrow> Inl e
            | Inr x \<Rightarrow> mix_b buf sample channels (track + 2) (fB + x / real_of_int (channels div 2)))
      else Inr fB)"
  by pat_completeness auto
termination
  by (relation "measure (\<lambda>(buf, sample, channels, track, fB). nat (channels - track))") auto

text \<open>
  The body of the demultiplexing loop up to the two ring buffer writes: the samples
  \<open>(fA, fB)\<close> of frame \<open>frame\<close> for the two legs.
\<close>

definition demux_frame :: "AUDIO_PLAYER \<Rightarrow> real list \<Rightarrow> nat \<Rightarrow> error + real \<times> real" where
  "demux_frame p buf frame =
     (let channels = sf_channels (sf_info p);
          sample = frame * nat channels
      in if channels > 1
         then bindE (if track_a p < 0 then mix_a buf sample channels 0 0
                     else buf_at buf (sample + nat (track_a p))) (\<lambda>fA.
              bindE (if track_b p < 0 then mix_b buf sample channels 0 0
                     else buf_at buf (sample + nat (track_b p))) (\<lambda>fB.
                Inr (fA, fB)))
         else bindE (buf_at buf sample) (\<lambda>x. Inr (x / 2, x / 2)))"

text \<open>
  The demultiplexing loop, from frame \<open>frame\<close> on. One sample is 4 bytes
  (\<^verbatim>\<open>sizeof(float)\<close>). The result tells whether the underrun branch was taken (message
  printed, loop left).
\<close>

function demux_write ::
  "real list \<Rightarrow> nat \<Rightarrow> nat \<Rightarrow> AUDIO_PLAYER \<Rightarrow> error + AUDIO_PLAYER \<times> bool"
where
  "demux_write buf nFramesRead frame p =
     (if frame < nFramesRead
      then (case demux_frame p buf frame of
              Inl e \<Rightarrow> Inl e
            | Inr (fA, fB) \<Rightarrow>
                (case rb_deref (ringbuffer_b p) of
                   Inl e \<Rightarrow> Inl e
                 | Inr rb_b \<Rightarrow>
                     (case rb_deref (ringbuffer_a p) of
                        Inl e \<Rightarrow> Inl e
                      | Inr rb_a \<Rightarrow>
                          (let (rb_b', nWrote) = jack_ringbuffer_write rb_b 4;
                               (rb_a', n) = jack_ringbuffer_write rb_a nWrote;
                               p' = p\<lparr>ringbuffer_b := Some rb_b', ringbuffer_a := Some rb_a'\<rparr>
                           in if 4 < n then Inr (p', True)
                              else demux_write buf nFramesRead (frame + 1) p'))))
      else Inr (p, False))"
  by pat_completeness auto
termination
  by (relation "measure (\<lambda>(buf, nFramesRead, frame, p). nFramesRead - frame)") auto

text \<open>
  The condition of the loop that waits for space,
  \<^verbatim>\<open>write_space(a) < n * 4 && write_space(b) < n * 4 || file_read_status == IDLE\<close>
  (\<^verbatim>\<open>&&\<close> binds tighter than \<^verbatim>\<open>||\<close>), \<open>n\<close> being \<^verbatim>\<open>nFramesRead\<close> as a \<^verbatim>\<open>size_t\<close>.
\<close>

definition wait_condition :: "AUDIO_PLAYER \<Rightarrow> nat \<Rightarrow> error + bool" where
  "wait_condition p n =
     bindE (rb_deref (ringbuffer_a p)) (\<lambda>rb_a.
     bindE (rb_deref (ringbuffer_b p)) (\<lambda>rb_b.
       Inr (jack_ringbuffer_write_space rb_a < (n * 4) mod 2 ^ 64
              \<and> jack_ringbuffer_write_space rb_b < (n * 4) mod 2 ^ 64
            \<or> file_read_status p = IDLE)))"

text \<open>
  The loop that waits for space. Each turn runs the notification pass and sleeps; what
  the other threads do to the state during that sleep is one element of \<open>sleeps\<close>. The
  result is \<open>Some\<close> state when the loop is left and \<open>None\<close> when it is still waiting
  after the last of the listed sleeps.
\<close>

fun wait_for_space :: "(state \<Rightarrow> state) list \<Rightarrow> nat \<Rightarrow> nat \<Rightarrow> state \<Rightarrow> error + state option" where
  "wait_for_space [] i n s =
     (case g_players s i of
        None \<Rightarrow> Inl InvalidPlayer
      | Some p \<Rightarrow>
          (case wait_condition p n of
             Inl e \<Rightarrow> Inl e
           | Inr w \<Rightarrow> if w then Inr None else Inr (Some s)))"
| "wait_for_space (sleep # sleeps) i n s =
     (case g_players s i of
        None \<Rightarrow> Inl InvalidPlayer
      | Some p \<Rightarrow>
          (case wait_condition p n of
             Inl e \<Rightarrow> Inl e
           | Inr w \<Rightarrow>
               if w
               then (case send_notifications s (Some i) NOTIFY_ALL of
                       Inl e \<Rightarrow> Inl e
                     | Inr s1 \<Rightarrow>
                         (case g_players (sleep s1) i of
                            None \<Rightarrow> Inl InvalidPlayer
                          | Some p2 \<Rightarrow>
                              if file_open p2 = 0 then Inr (Some (sleep s1))
                              else wait_for_space sleeps i n (sleep s1)))
               else Inr (Some s)))"

text \<open>
  The end of one turn of the worker's loop for the player in slot \<open>i\<close>: wait for
  space, then demultiplex the \<open>n\<close> frames of \<open>buf\<close> into the ring buffers.
\<close>

definition worker_write_block ::
  "(state \<Rightarrow> state) list \<Rightarrow> nat \<Rightarrow> real list \<Rightarrow> nat \<Rightarrow> state \<Rightarrow> error + (state \<times> bool) option"
where
  "worker_write_block sleeps i buf n s =
     bindE (wait_for_space sleeps i n s) (\<lambda>r.
       case r of
         None \<Rightarrow> Inr None
       | Some s1 \<Rightarrow> at_player s1 i (\<lambda>p.
           bindE (demux_write buf n 0 p) (\<lambda>(p', logged).
             Inr (Some (put_player s1 i p', logged)))))"

section \<open>The realtime callback: audio\<close>

text \<open>
  The two nested loops of pitch-shifted playback. \<open>f\<close> is \<^verbatim>\<open>f_count\<close>, \<open>r\<close> is
  \<^verbatim>\<open>r_count\<close>, \<open>a\<close> is \<^verbatim>\<open>a_count\<close>. The inner loop reads one sample from each ring buffer
  per turn and is left when ring buffer A is empty.
\<close>

function pitch_inner ::
  "real \<Rightarrow> nat \<Rightarrow> jack_ringbuffer \<Rightarrow> jack_ringbuffer \<Rightarrow> real \<Rightarrow> nat
     \<Rightarrow> jack_ringbuffer \<times> jack_ringbuffer \<times> real \<times> nat"
where
  "pitch_inner ps a ra rb f r =
     (if f < real a
      then (if jack_ringbuffer_read_space (fst (jack_ringbuffer_read ra 4)) = 0
               \<or> jack_ringbuffer_read_space (fst (jack_ringbuffer_read ra 4)) = 0
            then (fst (jack_ringbuffer_read ra 4), fst (jack_ringbuffer_read rb 4), f + ps, r + 1)
            else pitch_inner ps a (fst (jack_ringbuffer_read ra 4)) (fst (jack_ringbuffer_read rb 4))
                   (f + ps) (r + 1))
      else (ra, rb, f, r))"
  by pat_completeness auto
termination
  by (relation "measure (\<lambda>(ps, a, ra, rb, f, r). rb_fill ra)")
    (auto simp: jack_ringbuffer_read_def jack_ringbuffer_read_space_def Let_def min_def
      split: if_splits)

function pitch_outer ::
  "real \<Rightarrow> nat \<Rightarrow> jack_ringbuffer \<Rightarrow> jack_ringbuffer \<Rightarrow> real \<Rightarrow> nat \<Rightarrow> nat
     \<Rightarrow> jack_ringbuffer \<times> jack_ringbuffer \<times> nat \<times> nat"
where
  "pitch_outer ps nFrames ra rb f r a =
     (if a < nFrames
      then (if jack_ringbuffer_peek ra 4 < 4 \<or> jack_ringbuffer_peek rb 4 < 4
            then (ra, rb, r, a)
            else (case pitch_inner ps a ra rb f r of
                    (ra', rb', f', r') \<Rightarrow> pitch_outer ps nFrames ra' rb' f' r' (a + 1)))
      else (ra, rb, r, a))"
  by pat_completeness auto
termination
  by (relation "measure (\<lambda>(ps, nFrames, ra, rb, f, r, a). nFrames - a)") auto

text \<open>The remainder of C's \<^verbatim>\<open>%\<close>: it has the sign of the dividend.\<close>

definition c_rem :: "int \<Rightarrow> int \<Rightarrow> int" where
  "c_rem a b = sgn a * (\<bar>a\<bar> mod \<bar>b\<bar>)"

text \<open>
  The end of the emitting block of \<^verbatim>\<open>on_jack_process\<close>, after
  \<^verbatim>\<open>play_pos_frames += r_count\<close>: the wrap at the loop end, or the stop at the end of the
  file. \<^verbatim>\<open>play_pos_frames\<close> is a 32-bit unsigned value; in
  \<^verbatim>\<open>play_pos_frames %= loop_end_src\<close> and \<^verbatim>\<open>play_pos_frames += loop_start_src\<close> the
  arithmetic is that of the 64-bit \<^verbatim>\<open>sf_count_t\<close> and the result is cut to 32 bits.
\<close>

definition end_of_period :: "AUDIO_PLAYER \<Rightarrow> bool \<Rightarrow> error + AUDIO_PLAYER" where
  "end_of_period p eof =
     (if loop p \<noteq> 0
      then (if uint (play_pos_frames p) \<ge> loop_end_src p \<or> eof
            then (if loop_end_src p = 0 then Inl DivisionByZero
                  else (let pos1 = (word_of_int (c_rem (uint (play_pos_frames p)) (loop_end_src p)) :: 32 word);
                            pos2 = (word_of_int (uint pos1 + loop_start_src p) :: 32 word)
                        in Inr (p\<lparr>play_pos_frames := pos2, loop_loaded := 0,
                                  file_read_status := LOOPING\<rparr>)))
            else Inr p)
      else (if unat (play_pos_frames p) \<ge> frames p \<or> eof
            then Inr (p\<lparr>play_pos_frames := 0, play_state := STOPPING,
                       file_read_status := SEEKING\<rparr>)
            else Inr p))"

text \<open>
  The body of the loop over the players in \<^verbatim>\<open>on_jack_process\<close>, for one player whose
  file is open. The samples written to the output buffers are not tracked; the result
  is the player and \<^verbatim>\<open>a_count\<close>, the number of samples emitted.
\<close>

definition process_player :: "nat \<Rightarrow> AUDIO_PLAYER \<Rightarrow> error + AUDIO_PLAYER \<times> nat" where
  "process_player nFrames p0 =
     (let p = (if play_state p0 = STARTING \<and> file_read_status p0 \<noteq> SEEKING
               then p0\<lparr>play_state := PLAYING\<rparr> else p0)
      in bindE
           (if play_state p = PLAYING \<or> play_state p = STOPPING
            then
              bindE (rb_deref (ringbuffer_a p)) (\<lambda>ra.
              bindE (rb_deref (ringbuffer_b p)) (\<lambda>rb.
                let (ra', rb', r_count, a_count0) =
                      (if pitch_shift p \<noteq> 1
                       then pitch_outer (pitch_shift p) nFrames ra rb 0 0 0
                       else (let (ra1, n) = jack_ringbuffer_read ra (nFrames * 4);
                                 (rb1, m) = jack_ringbuffer_read rb n
                             in (ra1, rb1, n div 4, n div 4)));
                    a_count = (if a_count0 > nFrames then nFrames else a_count0);
                    p1 = p\<lparr>ringbuffer_a := Some ra', ringbuffer_b := Some rb',
                           play_pos_frames := play_pos_frames p + word_of_nat r_count\<rparr>;
                    eof = (file_read_status p1 = IDLE \<and> jack_ringbuffer_read_space ra' = 0)
                in bindE (end_of_period p1 eof) (\<lambda>p2. Inr (p2, a_count))))
            else Inr (p, 0))
           (\<lambda>(p3, a_count).
              Inr (if play_state p3 = STOPPING then p3\<lparr>play_state := STOPPED\<rparr> else p3, a_count)))"

fun process_slots :: "nat \<Rightarrow> nat list \<Rightarrow> state \<Rightarrow> error + state" where
  "process_slots nFrames [] s = Inr s"
| "process_slots nFrames (i # slots) s =
     (case g_players s i of
        None \<Rightarrow> process_slots nFrames slots s
      | Some p \<Rightarrow>
          if file_open p \<noteq> 2 then process_slots nFrames slots s
          else (case process_player nFrames p of
                  Inl e \<Rightarrow> Inl e
                | Inr (p', a_count) \<Rightarrow> process_slots nFrames slots (put_player s i p')))"

section \<open>The realtime callback: MIDI\<close>

text \<open>
  \<^verbatim>\<open>pPlayer->pitch_shift = pow(1.059463094359, 60 - note)\<close>. \<^verbatim>\<open>pow\<close> is a function of
  the C library: it answers with a double precision number close to the power, and the
  assignment rounds that number to the single precision field. \<open>powf e\<close> is the number
  that the field holds after the assignment for the exponent \<open>e\<close>; the handler is
  described for every such function.
\<close>

definition note_ratio :: "(int \<Rightarrow> real) \<Rightarrow> 8 word \<Rightarrow> real" where
  "note_ratio powf note = powf (60 - uint note)"

text \<open>
  One MIDI event, given by its three bytes. The branch for control changes is compiled
  only with \<^verbatim>\<open>ENABLE_MIDI\<close>, which the build does not define.
\<close>

definition process_midi_event ::
  "(int \<Rightarrow> real) \<Rightarrow> state \<Rightarrow> 8 word \<times> 8 word \<times> 8 word \<Rightarrow> error + state"
where
  "process_midi_event powf s ev =
     (case ev of (b0, b1, b2) \<Rightarrow>
        (let chan = b0 AND 0x0F
         in bindE (g_players_at s (uint chan)) (\<lambda>pPlayer.
           case pPlayer of
             None \<Rightarrow> Inr s
           | Some p \<Rightarrow>
               (let cmd = b0 AND 0xF0
                in if (cmd = 0x80 \<or> cmd = 0x90 \<and> b2 = 0) \<and> last_note_played p = b1
                   then bindE (stop_playback s (int (handle p))) (\<lambda>s1.
                          at_player s1 (unat chan) (\<lambda>p1.
                            Inr (put_player s1 (unat chan)
                                   (p1\<lparr>pitch_shift := 1, last_note_played := 0\<rparr>))))
                   else if cmd = 0x90
                   then bindE (rb_reset_ptr (ringbuffer_a p)) (\<lambda>rb_a.
                        bindE (rb_reset_ptr (ringbuffer_b p)) (\<lambda>rb_b.
                          Inr (put_player s (unat chan)
                                 (p\<lparr>pitch_shift := note_ratio powf b1,
                                    play_pos_frames := word_of_int (loop_start_src p),
                                    file_read_status := SEEKING,
                                    ringbuffer_a := rb_a,
                                    ringbuffer_b := rb_b,
                                    last_note_played := b1,
                                    play_state := STARTING\<rparr>))))
                   else if cmd = 0xE0
                   then Inr (put_player s (unat chan)
                               (p\<lparr>pitch_bend := unat b1 + 128 * unat b2\<rparr>))
                   else Inr s))))"

fun process_midi ::
  "(int \<Rightarrow> real) \<Rightarrow> (8 word \<times> 8 word \<times> 8 word) list \<Rightarrow> state \<Rightarrow> error + state"
where
  "process_midi powf [] s = Inr s"
| "process_midi powf (ev # evs) s =
     (case process_midi_event powf s ev of
        Inl e \<Rightarrow> Inl e
      | Inr s' \<Rightarrow> process_midi powf evs s')"

text \<open>\<^verbatim>\<open>on_jack_process\<close>: every player in index order, then the MIDI events of the period.\<close>

definition on_jack_process ::
  "(int \<Rightarrow> real) \<Rightarrow> nat \<Rightarrow> (8 word \<times> 8 word \<times> 8 word) list \<Rightarrow> state \<Rightarrow> error + state"
where
  "on_jack_process powf nFrames events s =
     bindE (process_slots nFrames [0..<17] s) (process_midi powf events)"

section \<open>Example states\<close>

text \<open>A block of memory that holds zeros, one of the contents \<^verbatim>\<open>malloc\<close> may answer with.\<close>

definition zero_mem :: AUDIO_PLAYER where
  "zero_mem =
     \<lparr>handle = 0, jack_out_a = 0, jack_out_b = 0, file_open = 0, file_read_status = 0,
      play_state = 0, file_read_pos = 0, loop = 0, loop_loaded = 0, loop_start = 0,
      loop_start_src = 0, loop_end = 0, loop_end_src = 0, gain = Num 0, track_a = 0,
      track_b = 0,
      input_buffer_size = 0, output_buffer_size = 0, buffer_count = 0, src_quality = 0,
      last_play_state = 0, last_loop = 0, last_loop_start = 0, last_loop_end = 0,
      last_position = 0, last_gain = Num 0, last_track_a = 0, last_track_b = 0,
      last_input_buffer_size = 0, last_output_buffer_size = 0, last_buffer_count = 0,
      last_src_quality = 0,
      sf_info = \<lparr>sf_frames = 0, sf_samplerate = 0, sf_channels = 0, sf_format = 0\<rparr>,
      ringbuffer_a = None, ringbuffer_b = None, play_pos_frames = 0, frames = 0,
      filename = [], last_note_played = 0, src_ratio = 0, pitch_shift = 0, pitch_bend = 0,
      cb_object = None, cb_fn = None, pos_notify_delta = 0\<rparr>"

text \<open>
  The player that \<^verbatim>\<open>add_player(0)\<close> creates in that block (ports 1 and 2), and the
  library state that holds it at a sample rate of 48000.
\<close>

definition fresh_player :: AUDIO_PLAYER where
  "fresh_player =
     zero_mem\<lparr>src_quality := 2, gain := Num 1, input_buffer_size := 48000, buffer_count := 5,
       loop_end := 48000, loop_end_src := 48000, jack_out_a := 1, jack_out_b := 2\<rparr>"

definition fresh_state :: state where
  "fresh_state = put_player (lib_init True 48000) 0 fresh_player"

text \<open>
  A file of \<open>n\<close> frames with \<open>ch\<close> channels and a sample rate of \<open>rate\<close>, as
  \<^verbatim>\<open>sf_open\<close> reports it; every collaborator succeeds.
\<close>

definition wav_env :: "int \<Rightarrow> int \<Rightarrow> int \<Rightarrow> worker_env" where
  "wav_env ch rate n =
     \<lparr>sf_open_ok = True,
      sf_open_info = \<lparr>sf_frames = n, sf_samplerate = rate, sf_channels = ch, sf_format = 65538\<rparr>,
      src_new_ok = True, sf_close_ok = True\<rparr>"

text \<open>
  The player after \<^verbatim>\<open>load(0, "a.wav", 7, 9)\<close> into the fresh player, of a file with
  two channels and 480000 frames at a rate of 48000 (ten seconds, no sample rate
  conversion): the file is open, nothing has been notified yet.
\<close>

definition open_player :: AUDIO_PLAYER where
  "open_player =
     fresh_player\<lparr>file_open := 2, file_read_status := SEEKING,
       sf_info := \<lparr>sf_frames = 480000, sf_samplerate = 48000, sf_channels = 2, sf_format = 65538\<rparr>,
       loop_end := 480000, loop_end_src := 480000, frames := 480000,
       last_play_state := - 1, last_position := - 1, last_loop_start := - 1,
       last_loop_end := - 1, pos_notify_delta := 1 / 10, src_ratio := 1,
       output_buffer_size := 48000,
       ringbuffer_a := Some \<lparr>rb_size = 960000, rb_fill = 0\<rparr>,
       ringbuffer_b := Some \<lparr>rb_size = 960000, rb_fill = 0\<rparr>,
       pitch_shift := 1, pitch_bend := 8192, filename := ''a.wav'',
       cb_object := Some 7, cb_fn := Some 9\<rparr>"

definition open_state :: state where
  "open_state = put_player (lib_init True 48000) 0 open_player"

text \<open>
  A file of ten seconds with a sample rate of 24000 (240000 frames), played back at
  48000: the resample ratio is 2 and the player counts 480000 frames after conversion.
\<close>

definition resampled_player :: AUDIO_PLAYER where
  "resampled_player =
     open_player\<lparr>sf_info := \<lparr>sf_frames = 240000, sf_samplerate = 24000, sf_channels = 2, sf_format = 65538\<rparr>,
       loop_end := 240000, src_ratio := 2, frames := 480000, loop_end_src := 480000,
       output_buffer_size := 96000,
       ringbuffer_a := Some \<lparr>rb_size = 1920000, rb_fill = 0\<rparr>,
       ringbuffer_b := Some \<lparr>rb_size = 1920000, rb_fill = 0\<rparr>\<rparr>"

definition resampled_state :: state where
  "resampled_state = put_player (lib_init True 48000) 0 resampled_player"

text \<open>
  The open player with a selection of tracks: channel 1 on the left leg, the mix on the
  right leg.
\<close>

definition tracked_player :: AUDIO_PLAYER where
  "tracked_player = open_player\<lparr>track_a := 1, track_b := - 1\<rparr>"

definition tracked_state :: state where
  "tracked_state = put_player (lib_init True 48000) 0 tracked_player"

text \<open>
  A second player, in slot 5 beside the one in slot 0, with the same file open and the
  same selection of tracks.
\<close>

definition second_player :: AUDIO_PLAYER where
  "second_player = tracked_player\<lparr>handle := 5, jack_out_a := 3, jack_out_b := 4\<rparr>"

definition two_player_state :: state where
  "two_player_state = put_player tracked_state 5 second_player"

text \<open>
  The open player looping over the 100 frames from 4800 to 4900 (a loop shorter than
  one period of the realtime callback) and playing at position 4860. The worker has
  queued the rest of the loop (40 frames) and one more pass of it (100 frames), 560
  bytes per leg, and is idle.
\<close>

definition looping_player :: AUDIO_PLAYER where
  "looping_player =
     open_player\<lparr>loop := 1, loop_loaded := 1, loop_start := 4800, loop_start_src := 4800,
       loop_end := 4900, loop_end_src := 4900, play_state := PLAYING,
       last_play_state := PLAYING, file_read_status := IDLE, file_read_pos := 4900,
       play_pos_frames := 4860,
       ringbuffer_a := Some \<lparr>rb_size = 960000, rb_fill = 560\<rparr>,
       ringbuffer_b := Some \<lparr>rb_size = 960000, rb_fill = 560\<rparr>\<rparr>"

definition looping_state :: state where
  "looping_state = put_player (lib_init True 48000) 0 looping_player"

text \<open>
  The open player while the worker loads, both ring buffers having been full, and the
  realtime callback is between its two bulk reads of a period of 256 frames: 1024 bytes
  have been read from ring buffer A, ring buffer B is still full.
\<close>

definition draining_player :: AUDIO_PLAYER where
  "draining_player =
     open_player\<lparr>file_read_status := LOADING, play_state := PLAYING, last_play_state := PLAYING,
       ringbuffer_a := Some \<lparr>rb_size = 960000, rb_fill = 958976\<rparr>,
       ringbuffer_b := Some \<lparr>rb_size = 960000, rb_fill = 960000\<rparr>\<rparr>"

definition draining_state :: state where
  "draining_state = put_player (lib_init True 48000) 0 draining_player"

text \<open>The open player playing, after a note-on for note 60 started it.\<close>

definition playing_player :: AUDIO_PLAYER where
  "playing_player =
     open_player\<lparr>file_read_status := LOADING, play_state := PLAYING, last_play_state := PLAYING,
       last_note_played := 60, play_pos_frames := 500,
       ringbuffer_a := Some \<lparr>rb_size = 960000, rb_fill = 4000\<rparr>,
       ringbuffer_b := Some \<lparr>rb_size = 960000, rb_fill = 4000\<rparr>\<rparr>"

definition playing_state :: state where
  "playing_state = put_player (lib_init True 48000) 0 playing_player"

section \<open>The downmix rule in the words of the specification\<close>

text \<open>
  The channels of one frame that belong to the left leg (even index) and to the right
  leg (odd index), and the average of a list of samples.
\<close>

definition even_channels :: "real list \<Rightarrow> real list" where
  "even_channels frame = map (\<lambda>i. frame ! i) (filter even [0..<length frame])"

definition odd_channels :: "real list \<Rightarrow> real list" where
  "odd_channels frame = map (\<lambda>i. frame ! i) (filter odd [0..<length frame])"

definition average :: "real list \<Rightarrow> real" where
  "average xs = sum_list xs / real (length xs)"

text \<open>Frame \<open>k\<close> of a buffer that holds \<open>n\<close> samples per frame.\<close>

definition frame_of :: "real list \<Rightarrow> nat \<Rightarrow> nat \<Rightarrow> real list" where
  "frame_of buf n k = take n (drop (k * n) buf)"

section \<open>What a notification pass may change\<close>

text \<open>
  \<open>snapshot_only p p'\<close>: the player \<open>p'\<close> is \<open>p\<close> but for the values recorded at the last
  notification.
\<close>

definition snapshot_only :: "AUDIO_PLAYER \<Rightarrow> AUDIO_PLAYER \<Rightarrow> bool" where
  "snapshot_only p p' \<longleftrightarrow>
     p' = p\<lparr>last_play_state := last_play_state p', last_position := last_position p',
            last_gain := last_gain p', last_loop := last_loop p',
            last_loop_start := last_loop_start p', last_loop_end := last_loop_end p',
            last_track_a := last_track_a p', last_track_b := last_track_b p',
            last_src_quality := last_src_quality p'\<rparr>"

text \<open>
  \<open>notified i s s'\<close>: between \<open>s\<close> and \<open>s'\<close> the players other than the one in slot \<open>i\<close>
  are untouched, that one is changed in its snapshot at most, and the sample rate and
  the client are the same.
\<close>

definition notified :: "nat \<Rightarrow> state \<Rightarrow> state \<Rightarrow> bool" where
  "notified i s s' \<longleftrightarrow>
     (\<forall>j. j \<noteq> i \<longrightarrow> g_players s' j = g_players s j) \<and>
     (\<exists>p p'. g_players s i = Some p \<and> g_players s' i = Some p' \<and> snapshot_only p p') \<and>
     g_samplerate s' = g_samplerate s \<and> g_jack_client s' = g_jack_client s"

section \<open>Properties\<close>

declare mix_a.simps [simp del] mix_b.simps [simp del] demux_write.simps [simp del]
  pitch_inner.simps [simp del] pitch_outer.simps [simp del]

subsection \<open>Basic facts\<close>

lemma bindE_Inr [simp]: "bindE (Inr x) f = f x"
  by (simp add: bindE_def)

lemma bindE_Inl [simp]: "bindE (Inl e) f = Inl e"
  by (simp add: bindE_def)

lemma bindE_eq_Inr: "bindE m f = Inr y \<longleftrightarrow> (\<exists>x. m = Inr x \<and> f x = Inr y)"
  by (cases m) simp_all

lemma at_player_Some: "g_players s i = Some p \<Longrightarrow> at_player s i f = f p"
  by (simp add: at_player_def)

lemma g_players_put_player [simp]:
  "g_players (put_player s i p) j = (if j = i then Some p else g_players s j)"
  by (simp add: put_player_def)

lemma put_player_globals [simp]:
  "g_samplerate (put_player s i p) = g_samplerate s"
  "g_jack_client (put_player s i p) = g_jack_client s"
  "cb_log (put_player s i p) = cb_log s"
  by (simp_all add: put_player_def)

lemma invoke_cb_globals [simp]:
  "g_players (invoke_cb p tag v s) = g_players s"
  "g_samplerate (invoke_cb p tag v s) = g_samplerate s"
  "g_jack_client (invoke_cb p tag v s) = g_jack_client s"
  by (simp_all add: invoke_cb_def split: option.splits)

lemma get_player_below: "h < 0 \<Longrightarrow> get_player s h = Inr None"
  by (simp add: get_player_def)

lemma get_player_above: "MAX_PLAYERS < h \<Longrightarrow> get_player s h = Inr None"
  by (simp add: get_player_def)

lemma get_player_Some:
  "get_player s h = Inr (Some p) \<longleftrightarrow> 0 \<le> h \<and> h < MAX_PLAYERS \<and> g_players s (nat h) = Some p"
  by (auto simp: get_player_def g_players_at_def)

text \<open>The definitions that evaluate a call on one of the example states.\<close>

lemmas example_defs = open_state_def open_player_def fresh_state_def fresh_player_def zero_mem_def
  lib_init_def put_player_def resampled_state_def resampled_player_def tracked_state_def
  tracked_player_def looping_player_def looping_state_def draining_player_def draining_state_def
  playing_player_def playing_state_def second_player_def two_player_state_def

lemmas lookup_defs = get_player_def g_players_at_def bindE_def at_player_def

lemmas notify_defs = send_notifications_def notify_transport_def notify_position_def
  notify_gain_def notify_loop_def notify_loop_start_def notify_loop_end_def notify_track_a_def
  notify_track_b_def notify_quality_def notify_debug_def invoke_cb_def get_position_def
  get_loop_start_time_def get_loop_end_time_def

lemmas worker_defs = file_thread_open_def file_thread_init_def file_thread_exit_def wav_env_def
  float_to_uint_def float_to_size_def float_to_sf_count_def trunc_def jack_ringbuffer_create_def

subsection \<open>The example states are states of the library\<close>

lemma fresh_state_reached:
  "add_player (Some zero_mem) (Some 1) (Some 2) (lib_init True 48000) 0 = Inr (fresh_state, 1)"
  by (simp add: add_player_def lib_init_def fresh_state_def fresh_player_def zero_mem_def
      float_to_sf_count_def trunc_def put_player_def)

lemma open_state_reached:
  "load True (wav_env 2 48000 480000) fresh_state 0 ''a.wav'' (Some 7) (Some 9)
     = Inr (open_state, 1)"
  apply (simp add: load_def load_prepare_def load_reset_def unload_def lookup_defs put_player_def lib_init_def fresh_state_def
      fresh_player_def zero_mem_def)
  apply (simp add: worker_defs Let_def open_state_def open_player_def fresh_player_def
      zero_mem_def put_player_def lib_init_def)
  done

lemma resampled_state_reached:
  "load True (wav_env 2 24000 240000) fresh_state 0 ''a.wav'' (Some 7) (Some 9)
     = Inr (resampled_state, 1)"
  apply (simp add: load_def load_prepare_def load_reset_def unload_def lookup_defs put_player_def lib_init_def fresh_state_def
      fresh_player_def zero_mem_def)
  apply (simp add: worker_defs Let_def resampled_state_def resampled_player_def open_player_def
      fresh_player_def zero_mem_def put_player_def lib_init_def)
  done

subsection \<open>The notification pass changes the snapshot only\<close>

lemma snapshot_only_refl [simp]: "snapshot_only p p"
  by (simp add: snapshot_only_def)

lemma snapshot_only_trans: "snapshot_only p q \<Longrightarrow> snapshot_only q r \<Longrightarrow> snapshot_only p r"
  unfolding snapshot_only_def
  by (cases p, cases q, cases r) simp

lemma snapshot_only_upd [simp]:
  "snapshot_only p (p\<lparr>last_play_state := a\<rparr>)"
  "snapshot_only p (p\<lparr>last_position := b\<rparr>)"
  "snapshot_only p (p\<lparr>last_gain := c\<rparr>)"
  "snapshot_only p (p\<lparr>last_loop := d\<rparr>)"
  "snapshot_only p (p\<lparr>last_loop_start := e\<rparr>)"
  "snapshot_only p (p\<lparr>last_loop_end := f\<rparr>)"
  "snapshot_only p (p\<lparr>last_track_a := g\<rparr>)"
  "snapshot_only p (p\<lparr>last_track_b := h\<rparr>)"
  "snapshot_only p (p\<lparr>last_src_quality := k\<rparr>)"
  by (simp_all add: snapshot_only_def)

lemma snapshot_only_fields:
  assumes "snapshot_only p q"
  shows "track_a q = track_a p" "track_b q = track_b p" "loop_start q = loop_start p"
    "loop_end q = loop_end p" "file_open q = file_open p" "play_state q = play_state p"
    "gain q = gain p"
  using assms unfolding snapshot_only_def
  by (cases p, cases q, simp)+

lemma notified_refl: "g_players s i = Some p \<Longrightarrow> notified i s s"
  by (auto simp: notified_def)

lemma notified_trans: "notified i s s' \<Longrightarrow> notified i s' s'' \<Longrightarrow> notified i s s''"
  by (auto simp: notified_def intro: snapshot_only_trans)

lemma notified_slot: "notified i s s' \<Longrightarrow> \<exists>p'. g_players s' i = Some p'"
  by (auto simp: notified_def)

lemma notify_steps_notified:
  assumes "g_players s i = Some p"
  shows "notify_transport s i param = Inr s' \<Longrightarrow> notified i s s'"
    and "notify_position s i param = Inr s' \<Longrightarrow> notified i s s'"
    and "notify_gain s i param = Inr s' \<Longrightarrow> notified i s s'"
    and "notify_loop s i param = Inr s' \<Longrightarrow> notified i s s'"
    and "notify_loop_start s i param = Inr s' \<Longrightarrow> notified i s s'"
    and "notify_loop_end s i param = Inr s' \<Longrightarrow> notified i s s'"
    and "notify_track_a s i param = Inr s' \<Longrightarrow> notified i s s'"
    and "notify_track_b s i param = Inr s' \<Longrightarrow> notified i s s'"
    and "notify_quality s i param = Inr s' \<Longrightarrow> notified i s s'"
    and "notify_debug s i param = Inr s' \<Longrightarrow> notified i s s'"
  using assms
  by (auto simp: notify_transport_def notify_position_def notify_gain_def notify_loop_def
      notify_loop_start_def notify_loop_end_def notify_track_a_def notify_track_b_def
      notify_quality_def notify_debug_def at_player_Some Let_def notified_def bindE_def
      split: if_splits option.splits sum.splits)

lemma send_notifications_closed:
  assumes "g_players s i = Some p" "file_open p \<noteq> 2"
  shows "send_notifications s (Some i) param = Inr s"
  using assms by (simp add: send_notifications_def at_player_Some)

lemma send_notifications_notified:
  assumes "g_players s i = Some p" "send_notifications s (Some i) param = Inr s'"
  shows "notified i s s'"
proof (cases "file_open p = 2")
  case False
  then show ?thesis using assms by (simp add: send_notifications_closed notified_refl)
next
  case True
  from assms True obtain s1 s2 s3 s4 s5 s6 s7 s8 s9 where
    st: "notify_transport s i param = Inr s1" "notify_position s1 i param = Inr s2"
      "notify_gain s2 i param = Inr s3" "notify_loop s3 i param = Inr s4"
      "notify_loop_start s4 i param = Inr s5" "notify_loop_end s5 i param = Inr s6"
      "notify_track_a s6 i param = Inr s7" "notify_track_b s7 i param = Inr s8"
      "notify_quality s8 i param = Inr s9" "notify_debug s9 i param = Inr s'"
    by (auto simp: send_notifications_def at_player_Some bindE_eq_Inr)
  have n1: "notified i s s1" using notify_steps_notified(1) [OF assms(1) st(1)] .
  then obtain p1 where "g_players s1 i = Some p1" using notified_slot by blast
  from notify_steps_notified(2) [OF this st(2)] n1 have n2: "notified i s s2"
    by (blast intro: notified_trans)
  then obtain p2 where "g_players s2 i = Some p2" using notified_slot by blast
  from notify_steps_notified(3) [OF this st(3)] n2 have n3: "notified i s s3"
    by (blast intro: notified_trans)
  then obtain p3 where "g_players s3 i = Some p3" using notified_slot by blast
  from notify_steps_notified(4) [OF this st(4)] n3 have n4: "notified i s s4"
    by (blast intro: notified_trans)
  then obtain p4 where "g_players s4 i = Some p4" using notified_slot by blast
  from notify_steps_notified(5) [OF this st(5)] n4 have n5: "notified i s s5"
    by (blast intro: notified_trans)
  then obtain p5 where "g_players s5 i = Some p5" using notified_slot by blast
  from notify_steps_notified(6) [OF this st(6)] n5 have n6: "notified i s s6"
    by (blast intro: notified_trans)
  then obtain p6 where "g_players s6 i = Some p6" using notified_slot by blast
  from notify_steps_notified(7) [OF this st(7)] n6 have n7: "notified i s s7"
    by (blast intro: notified_trans)
  then obtain p7 where "g_players s7 i = Some p7" using notified_slot by blast
  from notify_steps_notified(8) [OF this st(8)] n7 have n8: "notified i s s8"
    by (blast intro: notified_trans)
  then obtain p8 where "g_players s8 i = Some p8" using notified_slot by blast
  from notify_steps_notified(9) [OF this st(9)] n8 have n9: "notified i s s9"
    by (blast intro: notified_trans)
  then obtain p9 where "g_players s9 i = Some p9" using notified_slot by blast
  from notify_steps_notified(10) [OF this st(10)] n9 show ?thesis
    by (blast intro: notified_trans)
qed

text \<open>A targeted pass runs the one test it names.\<close>

lemma notify_gain_slot:
  assumes "g_players s i = Some p"
  shows "\<exists>s' p'. notify_gain s i param = Inr s' \<and> g_players s' i = Some p'
           \<and> file_open p' = file_open p \<and> gain p' = gain p"
  using assms by (auto simp: notify_gain_def at_player_Some Let_def)

lemma send_notifications_gain:
  assumes "g_players s i = Some p" "file_open p = 2"
  shows "send_notifications s (Some i) NOTIFY_GAIN = notify_gain s i NOTIFY_GAIN"
proof -
  obtain s' p' where s': "notify_gain s i NOTIFY_GAIN = Inr s'" "g_players s' i = Some p'"
    using notify_gain_slot [OF assms(1)] by blast
  show ?thesis
    using assms s'
    by (simp add: send_notifications_def at_player_Some notify_transport_def notify_position_def
        notify_loop_def notify_loop_start_def notify_loop_end_def notify_track_a_def
        notify_track_b_def notify_quality_def notify_debug_def)
qed

lemma send_notifications_transport:
  assumes "g_players s i = Some p" "file_open p = 2"
  shows "send_notifications s (Some i) NOTIFY_TRANSPORT = notify_transport s i NOTIFY_TRANSPORT"
proof -
  obtain s' p' where s': "notify_transport s i NOTIFY_TRANSPORT = Inr s'" "g_players s' i = Some p'"
    using assms(1)
    by (cases "last_play_state p = play_state p")
      (auto simp: notify_transport_def at_player_Some Let_def)
  show ?thesis
    using assms s'
    by (simp add: send_notifications_def at_player_Some notify_gain_def notify_position_def
        notify_loop_def notify_loop_start_def notify_loop_end_def notify_track_a_def
        notify_track_b_def notify_quality_def notify_debug_def)
qed

subsection \<open>What the calls do to the player they address\<close>

lemma stop_playback_stopped:
  assumes "get_player s h = Inr (Some p)" "play_state p = STOPPED"
  shows "stop_playback s h =
      (if file_open p = 2 \<and> last_play_state p \<noteq> STOPPED
       then Inr (invoke_cb (p\<lparr>last_play_state := STOPPED\<rparr>) NOTIFY_TRANSPORT (Num 0)
                   (put_player s (nat h) (p\<lparr>last_play_state := STOPPED\<rparr>)))
       else Inr s)"
proof -
  from assms(1) have gp: "g_players s (nat h) = Some p" by (simp add: get_player_Some)
  show ?thesis
  proof (cases "file_open p = 2")
    case True
    then show ?thesis using assms gp
      by (simp add: stop_playback_def ptr_of_def send_notifications_transport
          notify_transport_def at_player_Some Let_def)
  next
    case False
    then show ?thesis using assms gp
      by (simp add: stop_playback_def ptr_of_def send_notifications_closed)
  qed
qed

lemma stop_playback_slot:
  assumes "get_player s h = Inr (Some p)" "stop_playback s h = Inr s1"
  shows "\<exists>p1. g_players s1 (nat h) = Some p1 \<and> track_a p1 = track_a p \<and> track_b p1 = track_b p
           \<and> file_open p1 = file_open p"
proof -
  from assms(1) have gp: "g_players s (nat h) = Some p" by (simp add: get_player_Some)
  let ?s0 = "if play_state p \<noteq> STOPPED then put_player s (nat h) (p\<lparr>play_state := STOPPING\<rparr>) else s"
  have sn: "send_notifications ?s0 (Some (nat h)) NOTIFY_TRANSPORT = Inr s1"
    using assms by (simp add: stop_playback_def ptr_of_def split: if_splits)
  obtain p0 where p0: "g_players ?s0 (nat h) = Some p0" "track_a p0 = track_a p"
      "track_b p0 = track_b p" "file_open p0 = file_open p"
    using gp by (cases "play_state p = STOPPED") auto
  from send_notifications_notified [OF p0(1) sn] obtain p1 where
    "g_players s1 (nat h) = Some p1" "snapshot_only p0 p1"
    using p0(1) by (auto simp: notified_def)
  then show ?thesis using p0 by (auto simp: snapshot_only_fields)
qed

lemma unload_slot:
  assumes "get_player s h = Inr (Some p)" "unload c s h = Inr s1"
  shows "\<exists>p1. g_players s1 (nat h) = Some p1 \<and> track_a p1 = track_a p \<and> track_b p1 = track_b p
           \<and> file_open p1 = 0"
proof (cases "file_open p = 0")
  case True
  then have "s1 = s" using assms by (simp add: unload_def)
  moreover have "g_players s (nat h) = Some p" using assms(1) by (simp add: get_player_Some)
  ultimately show ?thesis using True by simp
next
  case False
  then obtain s0 where s0: "stop_playback s h = Inr s0"
    using assms by (auto simp: unload_def bindE_eq_Inr)
  from stop_playback_slot [OF assms(1) s0] obtain p0 where
    p0: "g_players s0 (nat h) = Some p0" "track_a p0 = track_a p" "track_b p0 = track_b p"
    by blast
  show ?thesis
    using assms False s0 p0
    by (auto simp: unload_def at_player_Some Let_def file_thread_exit_def split: if_splits)
qed

lemma unload_twice:
  assumes "unload c s h = Inr s1"
  shows "unload c' s1 h = Inr s1"
proof (cases "get_player s h")
  case (Inl e)
  then show ?thesis using assms by (simp add: unload_def)
next
  case (Inr pp)
  show ?thesis
  proof (cases pp)
    case None
    then show ?thesis using assms Inr by (simp add: unload_def)
  next
    case (Some p)
    with Inr have gp: "get_player s h = Inr (Some p)" by simp
    from unload_slot [OF gp assms] obtain p1 where
      "g_players s1 (nat h) = Some p1" "file_open p1 = 0" by blast
    moreover from gp have "0 \<le> h" "h < MAX_PLAYERS" by (simp_all add: get_player_Some)
    ultimately have "get_player s1 h = Inr (Some p1)" by (simp add: get_player_Some)
    then show ?thesis using \<open>file_open p1 = 0\<close> by (simp add: unload_def)
  qed
qed

lemma file_thread_open_tracks:
  assumes "file_thread_open rate env p = Inr p'"
  shows "track_a p' = track_a p \<and> track_b p' = track_b p"
  using assms
  by (auto simp: file_thread_open_def file_thread_init_def file_thread_exit_def Let_def
      bindE_eq_Inr split: if_splits)


subsection \<open>The registry lookup\<close>

text \<open>
  A handle for which the lookup returns null (below 0, above 17, or an empty slot):
  the operations change nothing and return their neutral values.
\<close>

lemma operations_on_null_player:
  assumes "get_player s h = Inr None"
  shows "get_gain s h = Inr (Num 0)" "set_gain s h g = Inr s" "get_position s h = Inr 0"
    "set_position s h t = Inr s" "get_duration s h = Inr 0"
    "get_loop_start_time s h = Inr 0" "set_loop_start_time wrap s h rt = Inr s"
    "get_loop_end_time s h = Inr 0" "set_loop_end_time wrap s h rt = Inr s"
    "get_track_a s h = Inr 0" "set_track_a s h k = Inr s"
    "get_track_b s h = Inr 0" "set_track_b s h k = Inr s"
    "get_playback_state s h = Inr STOPPED"
    "stop_playback s h = Inr s" "start_playback s h = Inr s" "unload c s h = Inr s"
    "load th env s h fname ob fn = Inr (s, 0)"
  using assms
  by (simp_all add: get_gain_def set_gain_def get_position_def set_position_def
      get_duration_def get_loop_start_time_def get_loop_end_time_def
      set_loop_start_time_def set_loop_end_time_def get_track_a_def set_track_a_def
      get_track_b_def set_track_b_def get_playback_state_def
      stop_playback_def start_playback_def unload_def load_def load_prepare_def load_reset_def
      ptr_of_def
      send_notifications_def)

text \<open>
  C1. The guarded lookup is to return null for every handle outside \<open>[0, 17)\<close>, so that
  every operation on such a handle does nothing. For the handle 17 the guard of
  \<^verbatim>\<open>get_player\<close> does not fire: the lookup reads \<^verbatim>\<open>g_players[17]\<close>, one entry past the
  end of the table, in every state, and so does every operation that starts with the
  lookup.
\<close>

theorem get_player_17_reads_past_table:
  "get_player s 17 = Inl OutOfBoundsRead
   \<and> get_gain s 17 = Inl OutOfBoundsRead
   \<and> set_gain s 17 g = Inl OutOfBoundsRead
   \<and> get_position s 17 = Inl OutOfBoundsRead
   \<and> set_position s 17 t = Inl OutOfBoundsRead
   \<and> get_loop_start_time s 17 = Inl OutOfBoundsRead
   \<and> set_loop_start_time wrap s 17 rt = Inl OutOfBoundsRead
   \<and> get_loop_end_time s 17 = Inl OutOfBoundsRead
   \<and> set_loop_end_time wrap s 17 rt = Inl OutOfBoundsRead
   \<and> get_track_a s 17 = Inl OutOfBoundsRead
   \<and> set_track_a s 17 k = Inl OutOfBoundsRead
   \<and> get_track_b s 17 = Inl OutOfBoundsRead
   \<and> set_track_b s 17 k = Inl OutOfBoundsRead
   \<and> get_playback_state s 17 = Inl OutOfBoundsRead
   \<and> stop_playback s 17 = Inl OutOfBoundsRead
   \<and> start_playback s 17 = Inl OutOfBoundsRead
   \<and> unload c s 17 = Inl OutOfBoundsRead
   \<and> load th env s 17 fname ob fn = Inl OutOfBoundsRead"
proof -
  have "get_player s 17 = Inl OutOfBoundsRead"
    by (simp add: get_player_def g_players_at_def)
  then show ?thesis
    by (simp add: get_gain_def set_gain_def get_position_def set_position_def
        get_loop_start_time_def get_loop_end_time_def
        set_loop_start_time_def set_loop_end_time_def get_track_a_def set_track_a_def
        get_track_b_def set_track_b_def get_playback_state_def
        stop_playback_def start_playback_def unload_def load_def load_prepare_def
        load_reset_def)
qed

subsection \<open>Single precision\<close>

lemma trunc_of_int [simp]: "trunc (of_int n) = n"
  by (simp add: trunc_def)

lemma round_half_even_int [simp]: "round_half_even (of_int k) = k"
  by (simp add: round_half_even_def)

lemma floor_log2_bounds:
  assumes "2 powi e \<le> x" "x < 2 powi (e + 1)"
  shows "\<lfloor>log 2 x\<rfloor> = e"
proof -
  have pos: "0 < x" using assms(1) by (smt (verit) zero_less_power_int)
  have "real_of_int e \<le> log 2 x"
    using assms(1) pos by (simp add: le_log_iff powr_real_of_int')
  moreover have "log 2 x < real_of_int (e + 1)"
  proof -
    have "(2::real) powr real_of_int (e + 1) = 2 powi (e + 1)"
      by (rule powr_real_of_int') simp_all
    then have "x < 2 powr real_of_int (e + 1)" using assms(2) by simp
    then show ?thesis using pos by (simp add: log_less_iff)
  qed
  ultimately show ?thesis by (simp add: floor_eq_iff)
qed

lemma f32_binade:
  assumes "2 powi e \<le> \<bar>x\<bar>" "\<bar>x\<bar> < 2 powi (e + 1)" "- 126 \<le> e"
  shows "f32 x = (let r = of_int (round_half_even (x / 2 powi (e - 23))) * 2 powi (e - 23)
                  in if 2 ^ 128 \<le> \<bar>r\<bar> then (if 0 < x then PosInf else NegInf) else Num r)"
proof -
  have "x \<noteq> 0" using assms(1) by (smt (verit) zero_less_power_int)
  moreover have "\<lfloor>log 2 \<bar>x\<bar>\<rfloor> = e" using assms(1,2) by (rule floor_log2_bounds)
  ultimately show ?thesis using assms(3) by (simp add: f32_def Let_def max_def)
qed

lemma f32_of_int:
  assumes "\<bar>n\<bar> < 2 ^ 24"
  shows "f32 (of_int n) = Num (of_int n)"
proof (cases "n = 0")
  case True
  then show ?thesis by (simp add: f32_def)
next
  case False
  define e where "e = max (- 126) \<lfloor>log 2 \<bar>real_of_int n\<bar>\<rfloor>"
  have n1: "1 \<le> \<bar>real_of_int n\<bar>" using False by (simp flip: of_int_abs)
  have n2: "\<bar>real_of_int n\<bar> < 2 ^ 24" using assms by (simp flip: of_int_abs)
  have "0 \<le> log 2 \<bar>real_of_int n\<bar>" using n1 by simp
  moreover have "log 2 \<bar>real_of_int n\<bar> < 24"
    using n1 n2 by (simp add: log_less_iff powr_realpow flip: of_int_abs)
  ultimately have e: "0 \<le> e" "e \<le> 23" unfolding e_def by (simp_all add: floor_le_iff)
  define k where "k = nat (23 - e)"
  have u: "(2::real) powi (e - 23) = 1 / 2 ^ k"
    using e unfolding k_def by (simp add: power_int_def field_simps)
  have q: "real_of_int n / (2 powi (e - 23)) = of_int (n * 2 ^ k)"
    by (simp add: u)
  have r: "of_int (round_half_even (real_of_int n / 2 powi (e - 23))) * 2 powi (e - 23) = real_of_int n"
    unfolding q round_half_even_int by (simp add: u)
  have "(2::real) ^ 24 \<le> 2 ^ 128" by simp
  with n2 have "\<bar>real_of_int n\<bar> < 2 ^ 128" by linarith
  then show ?thesis
    using False r unfolding f32_def Let_def e_def [symmetric] by simp
qed

text \<open>
  A whole number of seconds at a sample rate below \<open>2 ^ 24\<close>, the product being below
  \<open>2 ^ 24\<close> too: nothing is rounded.
\<close>

lemma frames_of_time_exact:
  assumes "\<bar>sr\<bar> < 2 ^ 24" "0 \<le> sr * k" "sr * k < 2 ^ 24"
  shows "frames_of_time wrap sr (Num (of_int k)) = word_of_int (sr * k)"
proof -
  have a: "f32 (real_of_int sr) = Num (real_of_int sr)" using assms(1) by (rule f32_of_int)
  have "\<bar>sr * k\<bar> < 2 ^ 24" using assms(2,3) by simp
  then have b: "f32 (real_of_int (sr * k)) = Num (real_of_int (sr * k))" by (rule f32_of_int)
  have "(2::int) ^ 24 \<le> 2 ^ 32" by simp
  with assms(3) have "sr * k < 2 ^ 32" by linarith
  then show ?thesis
    using assms(2) a b
    by (simp add: frames_of_time_def cf_mul_def float_to_nframes_def flip: of_int_mult)
qed


text \<open>
  The single precision number nearest to 0.7 is \<open>11744051 / 2 ^ 24\<close>. At 48000 frames
  per second the product is rounded up to 33600, which the truncation keeps.
\<close>

lemma frames_of_time_rounds:
  "frames_of_time wrap 48000 (Num (11744051 / 16777216)) = 33600"
proof -
  have a: "f32 (real_of_int 48000) = Num (real_of_int 48000)" by (rule f32_of_int) simp
  let ?x = "4404019125 / 131072 :: real"
  have u: "(2::real) powi (15 - 23) = 1 / 256" "(2::real) powi 15 = 32768"
    "(2::real) powi (15 + 1) = 65536"
    by (simp_all add: power_int_def power_divide)
  have fl: "\<lfloor>4404019125 / 512 :: real\<rfloor> = 8601599" by simp
  have r: "round_half_even (?x / (1 / 256)) = 8601600"
    by (simp add: round_half_even_def Let_def fl)
  have "f32 ?x = Num 33600"
    by (subst f32_binade [of 15]) (simp_all only: u r Let_def, simp_all)
  then show ?thesis using a
    by (simp add: frames_of_time_def cf_mul_def float_to_nframes_def trunc_def)
qed


subsection \<open>Calls that return\<close>

lemma snapshot_only_handle:
  assumes "snapshot_only p q"
  shows "handle q = handle p" "ringbuffer_a q = ringbuffer_a p" "ringbuffer_b q = ringbuffer_b p"
    "input_buffer_size q = input_buffer_size p"
  using assms unfolding snapshot_only_def
  by (cases p, cases q, simp)+




lemma float_to_sf_count_fits:
  assumes "\<bar>x\<bar> < 2 ^ 63"
  shows "float_to_sf_count x = Inr (trunc x)"
proof -
  have "- (2 ^ 63) \<le> trunc x \<and> trunc x < 2 ^ 63"
  proof (cases "0 \<le> x")
    case True
    then have "trunc x = \<lfloor>x\<rfloor>" by (simp add: trunc_def)
    moreover have "0 \<le> \<lfloor>x\<rfloor>" using True by simp
    moreover have "\<lfloor>x\<rfloor> < 2 ^ 63" using assms True by (simp add: floor_less_iff)
    ultimately show ?thesis by simp
  next
    case False
    then have "trunc x = \<lceil>x\<rceil>" by (simp add: trunc_def)
    moreover have "\<lceil>x\<rceil> \<le> 0" using False by (simp add: ceiling_le_iff)
    moreover have "- (2 ^ 63) \<le> \<lceil>x\<rceil>" using assms False by (simp add: le_ceiling_iff)
    ultimately show ?thesis by simp
  qed
  then show ?thesis by (simp add: float_to_sf_count_def)
qed








subsection \<open>Loop bounds\<close>




text \<open>
  The upper limit that \<^verbatim>\<open>set_loop_end_time\<close> tests is the frame count after sample
  rate conversion, not the frame count of the file. For the file of 240000 frames played
  at twice its rate, an end of 15 seconds is stored as frame 360000 of the file, which
  the file does not have.
\<close>

lemma loop_end_beyond_file:
  "sf_frames (sf_info resampled_player) = 240000
   \<and> set_loop_end_time wrap resampled_state 0 (Num 15) =
       Inr (put_player resampled_state 0
              (resampled_player\<lparr>loop_end := 360000, loop_end_src := 720000\<rparr>))"
proof -
  have f: "frames_of_time wrap 24000 (Num 15) = 360000"
    using frames_of_time_exact [of 24000 15 wrap] by simp
  show ?thesis
    by (simp add: set_loop_end_time_def example_defs lookup_defs f trunc_def
        float_to_sf_count_def Let_def)
qed

subsection \<open>Gain\<close>

text \<open>
  C3, as amended. For a valid handle whose file is open, \<^verbatim>\<open>set_gain(g)\<close> with a number
  \<open>g\<close> in \<open>[0, 2]\<close> followed by \<^verbatim>\<open>get_gain\<close> returns \<open>g\<close>. For a number \<open>g\<close> outside
  \<open>[0, 2]\<close> and for the two infinities, and for every \<open>g\<close> when the file of the player is
  not open, \<^verbatim>\<open>set_gain\<close> changes nothing, so the stored gain is retained; while the file
  is not open \<^verbatim>\<open>get_gain\<close> returns 0. (What \<^verbatim>\<open>set_gain\<close> does on an open file with a
  \<open>g\<close> that is not a number is not part of this statement.)
\<close>

theorem set_gain_then_get_gain:
  assumes "get_player s h = Inr (Some p)"
  shows "(file_open p = 2 \<and> 0 \<le> x \<and> x \<le> 2 \<longrightarrow>
            (\<exists>s'. set_gain s h (Num x) = Inr s' \<and> get_gain s' h = Inr (Num x)))
       \<and> (x < 0 \<or> 2 < x \<longrightarrow> set_gain s h (Num x) = Inr s)
       \<and> set_gain s h PosInf = Inr s \<and> set_gain s h NegInf = Inr s
       \<and> (file_open p = 2 \<longrightarrow> get_gain s h = Inr (gain p))
       \<and> (file_open p \<noteq> 2 \<longrightarrow> set_gain s h g = Inr s \<and> get_gain s h = Inr (Num 0))"
proof -
  from assms have h: "0 \<le> h" "h < MAX_PLAYERS" and gp: "g_players s (nat h) = Some p"
    by (simp_all add: get_player_Some)
  have rej: "x < 0 \<or> 2 < x \<Longrightarrow> set_gain s h (Num x) = Inr s"
    using assms by (auto simp: set_gain_def)
  have inf: "set_gain s h PosInf = Inr s" "set_gain s h NegInf = Inr s"
    using assms by (simp_all add: set_gain_def)
  have get: "file_open p = 2 \<Longrightarrow> get_gain s h = Inr (gain p)"
    using assms by (simp add: get_gain_def)
  have closed: "file_open p \<noteq> 2 \<Longrightarrow> set_gain s h g = Inr s \<and> get_gain s h = Inr (Num 0)"
    using assms by (simp add: set_gain_def get_gain_def)
  have acc: "\<exists>s'. set_gain s h (Num x) = Inr s' \<and> get_gain s' h = Inr (Num x)"
    if "file_open p = 2" "0 \<le> x" "x \<le> 2"
  proof -
    let ?p1 = "p\<lparr>gain := Num x\<rparr>"
    let ?s1 = "put_player s (nat h) ?p1"
    have slot: "g_players ?s1 (nat h) = Some ?p1" by simp
    have sg: "set_gain s h (Num x) = notify_gain ?s1 (nat h) NOTIFY_GAIN"
      using assms that slot by (simp add: set_gain_def send_notifications_gain)
    obtain s' p' where s': "notify_gain ?s1 (nat h) NOTIFY_GAIN = Inr s'"
        "g_players s' (nat h) = Some p'" "file_open p' = file_open ?p1" "gain p' = gain ?p1"
      using notify_gain_slot [OF slot] by blast
    have "get_player s' h = Inr (Some p')"
      using h s'(2) by (simp add: get_player_Some)
    then have "get_gain s' h = Inr (Num x)"
      using s'(3,4) that(1) by (simp add: get_gain_def)
    then show ?thesis using sg s'(1) by simp
  qed
  show ?thesis using rej inf get closed acc by blast
qed

text \<open>
  On the open example player (gain 1): a gain of 3/2 is stored and read back, a gain of
  3 and an infinite gain are rejected. On the player just created, whose file is not
  open, the gain 3/2 is not stored.
\<close>

theorem set_gain_then_get_gain_witness:
  "get_player open_state 0 = Inr (Some open_player) \<and> file_open open_player = 2
   \<and> (\<exists>s'. set_gain open_state 0 (Num (3 / 2)) = Inr s' \<and> get_gain s' 0 = Inr (Num (3 / 2)))
   \<and> set_gain open_state 0 (Num 3) = Inr open_state
   \<and> set_gain open_state 0 PosInf = Inr open_state
   \<and> get_gain open_state 0 = Inr (Num 1)
   \<and> get_player fresh_state 0 = Inr (Some fresh_player) \<and> file_open fresh_player \<noteq> 2
   \<and> set_gain fresh_state 0 (Num (3 / 2)) = Inr fresh_state
   \<and> get_gain fresh_state 0 = Inr (Num 0)"
proof -
  have gp: "get_player open_state 0 = Inr (Some open_player)"
    by (simp add: lookup_defs example_defs)
  have v: "file_open open_player = 2" "gain open_player = Num 1"
    by (simp_all add: example_defs)
  have gf: "get_player fresh_state 0 = Inr (Some fresh_player)"
    by (simp add: lookup_defs example_defs)
  have vf: "file_open fresh_player \<noteq> 2"
    by (simp add: example_defs)
  from set_gain_then_get_gain [OF gp, of "3 / 2"] set_gain_then_get_gain [OF gp, of 3]
    set_gain_then_get_gain [OF gf, of "3 / 2" "Num (3 / 2)"] gp v gf vf
  show ?thesis by simp
qed

text \<open>
  The claim as stated fails for a valid handle whose file is not open: on the player that
  \<^verbatim>\<open>add_player\<close> has just created, \<^verbatim>\<open>set_gain(3/2)\<close> changes nothing and \<^verbatim>\<open>get_gain\<close>
  returns 0.
\<close>

theorem set_gain_without_file:
  "get_player fresh_state 0 = Inr (Some fresh_player)
   \<and> set_gain fresh_state 0 (Num (3 / 2)) = Inr fresh_state
   \<and> get_gain fresh_state 0 = Inr (Num 0)"
  by (simp add: lookup_defs set_gain_def get_gain_def example_defs)

text \<open>
  A gain that is not a number fails both comparisons of the test
  \<^verbatim>\<open>gain < 0 || gain > 2\<close>: on an open file it is stored, and \<^verbatim>\<open>get_gain\<close> returns it.
  The notification pass compares it with the gain notified last, which is false too, so
  that no callback is invoked.
\<close>

lemma set_gain_stores_nan:
  assumes "get_player s h = Inr (Some p)" "file_open p = 2"
  shows "set_gain s h NaN = Inr (put_player s (nat h) (p\<lparr>gain := NaN\<rparr>))"
    and "get_gain (put_player s (nat h) (p\<lparr>gain := NaN\<rparr>)) h = Inr NaN"
proof -
  from assms have h: "0 \<le> h" "h < MAX_PLAYERS" by (simp_all add: get_player_Some)
  let ?p1 = "p\<lparr>gain := NaN\<rparr>"
  let ?s1 = "put_player s (nat h) ?p1"
  have slot: "g_players ?s1 (nat h) = Some ?p1" by simp
  have "set_gain s h NaN = notify_gain ?s1 (nat h) NOTIFY_GAIN"
    using assms slot by (simp add: set_gain_def send_notifications_gain)
  then show "set_gain s h NaN = Inr ?s1"
    by (simp add: notify_gain_def at_player_Some)
  have "get_player ?s1 h = Inr (Some ?p1)" using h by (simp add: get_player_Some)
  then show "get_gain ?s1 h = Inr NaN" using assms(2) by (simp add: get_gain_def)
qed

lemma set_gain_nan_on_open_player:
  "set_gain open_state 0 NaN = Inr (put_player open_state 0 (open_player\<lparr>gain := NaN\<rparr>))
   \<and> get_gain (put_player open_state 0 (open_player\<lparr>gain := NaN\<rparr>)) 0 = Inr NaN"
proof -
  have gp: "get_player open_state 0 = Inr (Some open_player)"
    by (simp add: lookup_defs example_defs)
  have v: "file_open open_player = 2" by (simp add: example_defs)
  from set_gain_stores_nan [OF gp v] show ?thesis by simp
qed

subsection \<open>Repeating unload and stop\<close>

text \<open>
  C9, as amended. \<^verbatim>\<open>unload\<close> on a handle whose file is closed changes nothing (no field,
  no callback), and so does a second \<^verbatim>\<open>unload\<close> after a first. \<^verbatim>\<open>stop_playback\<close> on a
  player whose transport is STOPPED leaves the transport and every other field alone
  but for the last-notified transport state: when the file is open and that snapshot is
  not STOPPED, the stop that was not yet reported is reported now (the snapshot becomes
  STOPPED and the callback, if one is registered, is invoked once); otherwise nothing
  changes and no callback is invoked. A second \<^verbatim>\<open>stop_playback\<close> right after changes
  nothing.
\<close>

theorem unload_and_stop_repeated:
  assumes "get_player s h = Inr (Some p)"
  shows "(file_open p = 0 \<longrightarrow> unload c s h = Inr s)
       \<and> (\<forall>s1. unload c s h = Inr s1 \<longrightarrow> unload c' s1 h = Inr s1)
       \<and> (play_state p = STOPPED \<longrightarrow>
            stop_playback s h =
              (if file_open p = 2 \<and> last_play_state p \<noteq> STOPPED
               then Inr (invoke_cb (p\<lparr>last_play_state := STOPPED\<rparr>) NOTIFY_TRANSPORT (Num 0)
                           (put_player s (nat h) (p\<lparr>last_play_state := STOPPED\<rparr>)))
               else Inr s))
       \<and> (play_state p = STOPPED \<longrightarrow>
            (\<forall>s1. stop_playback s h = Inr s1 \<longrightarrow> stop_playback s1 h = Inr s1))"
proof -
  from assms have h: "0 \<le> h" "h < MAX_PLAYERS" by (simp_all add: get_player_Some)
  have a: "file_open p = 0 \<Longrightarrow> unload c s h = Inr s"
    using assms by (simp add: unload_def)
  have b: "\<And>s1. unload c s h = Inr s1 \<Longrightarrow> unload c' s1 h = Inr s1"
    by (rule unload_twice)
  have d: "stop_playback s1 h = Inr s1" if st: "play_state p = STOPPED"
    and s1: "stop_playback s h = Inr s1" for s1
  proof (cases "file_open p = 2 \<and> last_play_state p \<noteq> STOPPED")
    case False
    then have "s1 = s" using stop_playback_stopped [OF assms st] s1 by auto
    then show ?thesis using s1 by simp
  next
    case True
    let ?p' = "p\<lparr>last_play_state := STOPPED\<rparr>"
    have eq: "s1 = invoke_cb ?p' NOTIFY_TRANSPORT (Num 0) (put_player s (nat h) ?p')"
      using stop_playback_stopped [OF assms st] s1 True by simp
    then have "get_player s1 h = Inr (Some ?p')"
      using h by (simp add: get_player_Some)
    from stop_playback_stopped [OF this] st show ?thesis by simp
  qed
  show ?thesis
    using a b d stop_playback_stopped [OF assms] by blast
qed

text \<open>
  On the player just created (file closed, transport STOPPED) both calls change nothing;
  on the open example player a first \<^verbatim>\<open>stop_playback\<close> returns a state on which a second
  changes nothing, and \<^verbatim>\<open>unload\<close> returns a state on which a second changes nothing.
\<close>

theorem unload_and_stop_repeated_witness:
  "get_player fresh_state 0 = Inr (Some fresh_player)
   \<and> file_open fresh_player = 0 \<and> play_state fresh_player = STOPPED
   \<and> unload True fresh_state 0 = Inr fresh_state
   \<and> stop_playback fresh_state 0 = Inr fresh_state
   \<and> get_player open_state 0 = Inr (Some open_player) \<and> play_state open_player = STOPPED
   \<and> (\<exists>s1. stop_playback open_state 0 = Inr s1 \<and> stop_playback s1 0 = Inr s1)
   \<and> (\<exists>s1. unload True open_state 0 = Inr s1 \<and> unload True s1 0 = Inr s1)"
proof -
  have gf: "get_player fresh_state 0 = Inr (Some fresh_player)"
    by (simp add: lookup_defs example_defs)
  have vf: "file_open fresh_player = 0" "play_state fresh_player = STOPPED"
    by (simp_all add: example_defs)
  have go: "get_player open_state 0 = Inr (Some open_player)"
    by (simp add: lookup_defs example_defs)
  have vo: "play_state open_player = STOPPED" "file_open open_player = 2"
    "last_play_state open_player \<noteq> STOPPED"
    by (simp_all add: example_defs)
  have u: "\<exists>s1. unload True open_state 0 = Inr s1"
    by (simp add: unload_def stop_playback_def ptr_of_def lookup_defs example_defs notify_defs
        Let_def)
  note f = unload_and_stop_repeated [OF gf, of True True]
  note p = unload_and_stop_repeated [OF go, of True True]
  from f vf have "unload True fresh_state 0 = Inr fresh_state"
    "stop_playback fresh_state 0 = Inr fresh_state"
    by simp_all
  moreover from p vo have "\<exists>s1. stop_playback open_state 0 = Inr s1 \<and> stop_playback s1 0 = Inr s1"
    by (metis (no_types, lifting))
  moreover from p u have "\<exists>s1. unload True open_state 0 = Inr s1 \<and> unload True s1 0 = Inr s1"
    by blast
  ultimately show ?thesis using gf vf go vo by blast
qed

text \<open>
  The claim as stated fails for the state right after \<^verbatim>\<open>load\<close>: the transport is STOPPED
  and nothing has been notified yet, so \<^verbatim>\<open>stop_playback\<close> changes the player (its
  last-notified transport state) and invokes the callback.
\<close>

theorem stop_playback_reports_pending_stop:
  "get_player open_state 0 = Inr (Some open_player) \<and> play_state open_player = STOPPED
   \<and> stop_playback open_state 0 =
       Inr (put_player
              (open_state\<lparr>cb_log := [\<lparr>call_fn = 9, call_object = Some 7, call_handle = 0,
                  call_tag = NOTIFY_TRANSPORT, call_value = Num 0\<rparr>]\<rparr>)
              0 (open_player\<lparr>last_play_state := STOPPED\<rparr>))
   \<and> stop_playback open_state 0 \<noteq> Inr open_state"
  by (simp add: stop_playback_def ptr_of_def example_defs lookup_defs notify_defs Let_def)

subsection \<open>load resets the track selection\<close>

lemma stop_playback_returns:
  assumes "get_player s h = Inr (Some p)"
  shows "\<exists>s1. stop_playback s h = Inr s1"
proof -
  from assms have gp: "g_players s (nat h) = Some p" by (simp add: get_player_Some)
  let ?s0 = "if play_state p \<noteq> STOPPED then put_player s (nat h) (p\<lparr>play_state := STOPPING\<rparr>) else s"
  obtain p0 where p0: "g_players ?s0 (nat h) = Some p0" "file_open p0 = file_open p"
    using gp by (cases "play_state p = STOPPED") auto
  have "\<exists>s1. send_notifications ?s0 (Some (nat h)) NOTIFY_TRANSPORT = Inr s1"
  proof (cases "file_open p = 2")
    case True
    then have "send_notifications ?s0 (Some (nat h)) NOTIFY_TRANSPORT
        = notify_transport ?s0 (nat h) NOTIFY_TRANSPORT"
      using p0 by (simp only: send_notifications_transport)
    moreover have "\<exists>s1. notify_transport ?s0 (nat h) NOTIFY_TRANSPORT = Inr s1"
      using p0(1) by (simp add: notify_transport_def at_player_Some Let_def)
    ultimately show ?thesis by simp
  next
    case False
    then have "file_open p0 \<noteq> 2" using p0(2) by simp
    from send_notifications_closed [OF p0(1) this] show ?thesis by blast
  qed
  then show ?thesis using assms by (simp add: stop_playback_def ptr_of_def)
qed

text \<open>
  \<^verbatim>\<open>unload\<close> returns on every valid handle whose file is closed or open; the sample rate
  of the server and the input buffer size of the player stay as they are.
\<close>

lemma unload_returns:
  assumes "get_player s h = Inr (Some p)" "file_open p = 0 \<or> file_open p = 2"
  shows "\<exists>s1 p1. unload c s h = Inr s1 \<and> g_players s1 (nat h) = Some p1
           \<and> g_samplerate s1 = g_samplerate s
           \<and> input_buffer_size p1 = input_buffer_size p"
proof (cases "file_open p = 0")
  case True
  moreover have "g_players s (nat h) = Some p" using assms(1) by (simp add: get_player_Some)
  ultimately show ?thesis using assms(1) by (simp add: unload_def)
next
  case False
  then have op: "file_open p = 2" using assms(2) by simp
  from assms(1) have gp: "g_players s (nat h) = Some p" by (simp add: get_player_Some)
  from stop_playback_returns [OF assms(1)] obtain s0 where s0: "stop_playback s h = Inr s0"
    by blast
  let ?s0 = "if play_state p \<noteq> STOPPED then put_player s (nat h) (p\<lparr>play_state := STOPPING\<rparr>) else s"
  have sn: "send_notifications ?s0 (Some (nat h)) NOTIFY_TRANSPORT = Inr s0"
    using assms(1) s0 by (simp add: stop_playback_def ptr_of_def split: if_splits)
  obtain q where q: "g_players ?s0 (nat h) = Some q" "file_open q = file_open p"
      "input_buffer_size q = input_buffer_size p" "g_samplerate ?s0 = g_samplerate s"
    using gp by (cases "play_state p = STOPPED") auto
  from send_notifications_notified [OF q(1) sn] obtain p0 where
    p0: "g_players s0 (nat h) = Some p0" "snapshot_only q p0" "g_samplerate s0 = g_samplerate ?s0"
    using q(1) by (auto simp: notified_def)
  have f: "file_open p0 = 2" "input_buffer_size p0 = input_buffer_size p"
    using p0(2) q op by (simp_all add: snapshot_only_fields snapshot_only_handle)
  show ?thesis
    using assms(1) False s0 p0(1,3) f q(4)
    by (simp add: unload_def at_player_Some Let_def file_thread_exit_def)
qed

lemma float_to_uint_fits:
  assumes "0 \<le> x" "x < 2 ^ 32"
  shows "\<exists>n. float_to_uint x = Inr n"
  using assms by (simp add: float_to_uint_def trunc_def floor_less_iff)

lemma float_to_size_fits:
  assumes "0 \<le> x" "x < 2 ^ 63"
  shows "\<exists>n. float_to_size x = Inr n"
proof -
  have "(2::real) ^ 63 \<le> 2 ^ 64" by simp
  with assms(2) have "x < 2 ^ 64" by linarith
  then show ?thesis using assms(1) by (simp add: float_to_size_def trunc_def floor_less_iff)
qed

text \<open>
  The worker's open returns when \<^verbatim>\<open>sf_open\<close> fails or reports no channel, and when the
  sizes it computes fit.
\<close>

lemma file_thread_open_returns:
  assumes "\<not> sf_open_ok env \<or> sf_channels (sf_open_info env) < 1
           \<or> open_fits rate (sf_open_info env) (input_buffer_size p)"
  shows "\<exists>p'. file_thread_open rate env p = Inr p'"
proof (cases "sf_open_ok env \<and> 1 \<le> sf_channels (sf_open_info env)")
  case False
  then show ?thesis by (auto simp: file_thread_open_def Let_def)
next
  case True
  with assms have fits: "open_fits rate (sf_open_info env) (input_buffer_size p)" by auto
  let ?info = "sf_open_info env"
  define r where "r = (if real rate / real_of_int (sf_samplerate ?info) < 1 / 10 then 1
                       else real rate / real_of_int (sf_samplerate ?info))"
  have f: "sf_samplerate ?info \<noteq> 0" "0 \<le> sf_frames ?info"
    "r * real (input_buffer_size p) < 2 ^ 32" "real_of_int (sf_frames ?info) * r < 2 ^ 63"
    using fits unfolding open_fits_def Let_def r_def by simp_all
  have r0: "0 \<le> r"
  proof (cases "real rate / real_of_int (sf_samplerate ?info) < 1 / 10")
    case True
    then show ?thesis unfolding r_def by simp
  next
    case False
    then have "1 / 10 \<le> r" unfolding r_def by simp
    then show ?thesis by linarith
  qed
  have fr0: "0 \<le> real_of_int (sf_frames ?info)" using f(2) by simp
  have r: "0 \<le> r" "\<bar>real_of_int (sf_frames ?info) * r\<bar> < 2 ^ 63"
    "0 \<le> real_of_int (sf_frames ?info) * r" "real_of_int (sf_frames ?info) * r < 2 ^ 63"
    "r * real (input_buffer_size p) < 2 ^ 32" "0 \<le> r * real (input_buffer_size p)"
    "sf_samplerate ?info \<noteq> 0"
    using f r0 fr0 mult_nonneg_nonneg [OF fr0 r0]
      mult_nonneg_nonneg [OF r0 of_nat_0_le_iff [of "input_buffer_size p"]]
    by simp_all
  obtain obs where obs: "float_to_uint (r * real (input_buffer_size p)) = Inr obs"
    using float_to_uint_fits [OF r(6,5)] by blast
  obtain fr where fr: "float_to_size (real_of_int (sf_frames ?info) * r) = Inr fr"
    using float_to_size_fits [OF r(3,4)] by blast
  note le = float_to_sf_count_fits [OF r(2)]
  have z: "float_to_sf_count 0 = Inr 0" by (simp add: float_to_sf_count_def trunc_def)
  show ?thesis
    using True r(7) obs fr le z unfolding r_def
    by (auto simp: file_thread_open_def file_thread_init_def Let_def)
qed

lemma load_reset_returns:
  assumes "get_player s h = Inr (Some p)" "file_open p = 0 \<or> file_open p = 2"
  shows "\<exists>s1 p1. load_reset c s h = Inr (Some s1) \<and> g_players s1 (nat h) = Some p1
           \<and> track_a p1 = 0 \<and> track_b p1 = 0
           \<and> g_samplerate s1 = g_samplerate s
           \<and> input_buffer_size p1 = input_buffer_size p"
proof -
  from unload_returns [OF assms, of c] obtain s0 p0 where
    u: "unload c s h = Inr s0" "g_players s0 (nat h) = Some p0"
      "g_samplerate s0 = g_samplerate s" "input_buffer_size p0 = input_buffer_size p"
    by blast
  then show ?thesis using assms(1) by (simp add: load_reset_def at_player_Some)
qed

lemma load_prepare_returns:
  assumes "get_player s h = Inr (Some p)" "file_open p = 0 \<or> file_open p = 2"
    and "length fname < 128"
  shows "\<exists>s2 p2. load_prepare c s h fname = Inr (Some s2) \<and> g_players s2 (nat h) = Some p2
           \<and> track_a p2 = 0 \<and> track_b p2 = 0 \<and> file_open p2 = 1
           \<and> g_samplerate s2 = g_samplerate s
           \<and> input_buffer_size p2 = input_buffer_size p"
proof -
  from load_reset_returns [OF assms(1,2), of c] obtain s1 p1 where
    r: "load_reset c s h = Inr (Some s1)" "g_players s1 (nat h) = Some p1"
      "track_a p1 = 0" "track_b p1 = 0" "g_samplerate s1 = g_samplerate s"
      "input_buffer_size p1 = input_buffer_size p"
    by blast
  then show ?thesis using assms(3) by (simp add: load_prepare_def at_player_Some)
qed

lemma load_prepare_tracks:
  assumes "get_player s h = Inr (Some p)" "load_prepare c s h fname = Inr (Some s2)"
  shows "\<exists>p2. g_players s2 (nat h) = Some p2 \<and> track_a p2 = 0 \<and> track_b p2 = 0"
proof -
  from assms obtain s0 where s0: "unload c s h = Inr s0"
    by (auto simp: load_prepare_def load_reset_def bindE_eq_Inr)
  from unload_slot [OF assms(1) s0] obtain p0 where p0: "g_players s0 (nat h) = Some p0"
    by blast
  show ?thesis
    using assms s0 p0
    by (auto simp: load_prepare_def load_reset_def at_player_Some split: if_splits)
qed

lemma load_tracks:
  assumes "get_player s h = Inr (Some p)" "load thread_ok env s h fname ob fn = Inr (s', r)"
  shows "\<exists>p'. g_players s' (nat h) = Some p' \<and> track_a p' = 0 \<and> track_b p' = 0"
proof -
  from assms(1) have h: "0 \<le> h" "h < MAX_PLAYERS" by (simp_all add: get_player_Some)
  from assms(2) obtain prepared where
    pr: "load_prepare (sf_close_ok env) s h fname = Inr prepared"
    by (auto simp: load_def bindE_eq_Inr)
  have "prepared \<noteq> None"
    using pr assms(1) by (auto simp: load_prepare_def load_reset_def bindE_eq_Inr
        at_player_def split: option.splits if_splits)
  then obtain s2 where s2: "prepared = Some s2" by auto
  from load_prepare_tracks [OF assms(1) pr [unfolded s2]] obtain p2 where
    p2: "g_players s2 (nat h) = Some p2" "track_a p2 = 0" "track_b p2 = 0" by blast
  show ?thesis
  proof (cases thread_ok)
    case False
    then have "unload (sf_close_ok env) s2 h = Inr s'"
      using assms(2) pr s2 p2(1) by (auto simp: load_def at_player_Some bindE_eq_Inr)
    moreover have "get_player s2 h = Inr (Some p2)" using h p2(1) by (simp add: get_player_Some)
    ultimately show ?thesis using unload_slot p2 by fastforce
  next
    case True
    then obtain p3 where p3: "file_thread_open (g_samplerate s2) env p2 = Inr p3"
      and s': "s' = put_player s2 (nat h)
          (if file_open p3 \<noteq> 0 then p3\<lparr>cb_object := ob, cb_fn := fn\<rparr> else p3)"
      using assms(2) pr s2 p2(1) by (auto simp: load_def at_player_Some Let_def bindE_eq_Inr)
    from file_thread_open_tracks [OF p3] p2 show ?thesis unfolding s' by simp
  qed
qed

lemma load_returns:
  assumes "get_player s h = Inr (Some p)" "file_open p = 0 \<or> file_open p = 2"
    and "length fname < 128" and thread_ok
    and "\<not> sf_open_ok env \<or> sf_channels (sf_open_info env) < 1
         \<or> open_fits (g_samplerate s) (sf_open_info env) (input_buffer_size p)"
  shows "\<exists>s' r. load thread_ok env s h fname ob fn = Inr (s', r)"
proof -
  from load_prepare_returns [OF assms(1,2,3), of "sf_close_ok env"] obtain s2 p2 where
    pr: "load_prepare (sf_close_ok env) s h fname = Inr (Some s2)"
      "g_players s2 (nat h) = Some p2" "g_samplerate s2 = g_samplerate s"
      "input_buffer_size p2 = input_buffer_size p"
    by blast
  from assms(5) pr(3,4) have "\<not> sf_open_ok env \<or> sf_channels (sf_open_info env) < 1
         \<or> open_fits (g_samplerate s2) (sf_open_info env) (input_buffer_size p2)" by simp
  from file_thread_open_returns [OF this] obtain p3 where
    "file_thread_open (g_samplerate s2) env p2 = Inr p3" by blast
  then show ?thesis
    using pr(1,2) assms(4) by (simp add: load_def at_player_Some Let_def)
qed

text \<open>After a failed \<^verbatim>\<open>pthread_create\<close> the call of \<^verbatim>\<open>unload\<close> joins no thread.\<close>

lemma load_without_thread:
  assumes "get_player s h = Inr (Some p)" "file_open p = 0 \<or> file_open p = 2"
    and "length fname < 128"
  shows "load False env s h fname ob fn = Inl InvalidThread"
proof -
  from assms(1) have h: "0 \<le> h" "h < MAX_PLAYERS" by (simp_all add: get_player_Some)
  from load_prepare_returns [OF assms, of "sf_close_ok env"] obtain s2 p2 where
    pr: "load_prepare (sf_close_ok env) s h fname = Inr (Some s2)"
      "g_players s2 (nat h) = Some p2" "file_open p2 = 1"
    by blast
  have gp2: "get_player s2 h = Inr (Some p2)" using h pr(2) by (simp add: get_player_Some)
  from stop_playback_returns [OF gp2] obtain s3 where s3: "stop_playback s2 h = Inr s3" by blast
  from stop_playback_slot [OF gp2 s3] obtain p3 where
    p3: "g_players s3 (nat h) = Some p3" "file_open p3 = file_open p2" by blast
  have "unload (sf_close_ok env) s2 h = Inl InvalidThread"
    using gp2 pr(3) s3 p3 by (simp add: unload_def at_player_Some Let_def)
  then show ?thesis using pr(1,2) by (simp add: load_def at_player_Some)
qed

text \<open>
  C10. On every valid handle on which no load is in progress (\<^verbatim>\<open>file_open\<close> is 0 or 2),
  \<^verbatim>\<open>load\<close> reaches the assignment \<^verbatim>\<open>track_b = 0\<close>, and both \<^verbatim>\<open>track_a\<close> and \<^verbatim>\<open>track_b\<close>
  of the player are 0 from there on, whatever they were before: in the state in which
  the worker thread is created, and in the state in which \<^verbatim>\<open>load\<close> returns, whether the
  file could be opened or not. \<^verbatim>\<open>load\<close> returns whenever the name fits the field, the
  thread is created, and the open fails or the sizes of the opened file fit.
\<close>

theorem load_resets_tracks:
  assumes "get_player s h = Inr (Some p)" and "file_open p = 0 \<or> file_open p = 2"
  shows "(\<exists>s1 p1. load_reset c s h = Inr (Some s1) \<and> g_players s1 (nat h) = Some p1
            \<and> track_a p1 = 0 \<and> track_b p1 = 0)
       \<and> (length fname < 128 \<longrightarrow>
            (\<exists>s2 p2. load_prepare c s h fname = Inr (Some s2) \<and> g_players s2 (nat h) = Some p2
               \<and> track_a p2 = 0 \<and> track_b p2 = 0 \<and> file_open p2 = 1))
       \<and> (\<forall>s' r. load thread_ok env s h fname ob fn = Inr (s', r) \<longrightarrow>
            (\<exists>p'. g_players s' (nat h) = Some p' \<and> track_a p' = 0 \<and> track_b p' = 0))
       \<and> (length fname < 128 \<and> thread_ok
            \<and> (\<not> sf_open_ok env \<or> sf_channels (sf_open_info env) < 1
                 \<or> open_fits (g_samplerate s) (sf_open_info env) (input_buffer_size p)) \<longrightarrow>
            (\<exists>s' r. load thread_ok env s h fname ob fn = Inr (s', r)))"
proof -
  have a: "\<exists>s1 p1. load_reset c s h = Inr (Some s1) \<and> g_players s1 (nat h) = Some p1
            \<and> track_a p1 = 0 \<and> track_b p1 = 0"
    using load_reset_returns [OF assms, of c] by blast
  have b: "length fname < 128 \<Longrightarrow>
      \<exists>s2 p2. load_prepare c s h fname = Inr (Some s2) \<and> g_players s2 (nat h) = Some p2
               \<and> track_a p2 = 0 \<and> track_b p2 = 0 \<and> file_open p2 = 1"
    using load_prepare_returns [OF assms, of fname c] by blast
  have d: "\<And>s' r. load thread_ok env s h fname ob fn = Inr (s', r) \<Longrightarrow>
      \<exists>p'. g_players s' (nat h) = Some p' \<and> track_a p' = 0 \<and> track_b p' = 0"
    by (rule load_tracks [OF assms(1)])
  have e: "length fname < 128 \<and> thread_ok
            \<and> (\<not> sf_open_ok env \<or> sf_channels (sf_open_info env) < 1
                 \<or> open_fits (g_samplerate s) (sf_open_info env) (input_buffer_size p)) \<Longrightarrow>
            \<exists>s' r. load thread_ok env s h fname ob fn = Inr (s', r)"
    using load_returns [OF assms, of fname thread_ok env ob fn] by blast
  from a b d e show ?thesis by blast
qed

text \<open>
  The open example player with \<^verbatim>\<open>track_a = 1\<close> and \<^verbatim>\<open>track_b = -1\<close>, in slot 0 and in
  slot 5: after loading a file of four channels, and after a load whose \<^verbatim>\<open>sf_open\<close>
  fails, both selections are 0.
\<close>

theorem load_resets_tracks_witness:
  "get_player two_player_state 5 = Inr (Some second_player)
   \<and> get_player tracked_state 0 = Inr (Some tracked_player)
   \<and> file_open second_player = 2 \<and> file_open tracked_player = 2
   \<and> track_a second_player = 1 \<and> track_b second_player = - 1
   \<and> track_a tracked_player = 1 \<and> track_b tracked_player = - 1
   \<and> (\<exists>s1 p1. load_reset True two_player_state 5 = Inr (Some s1) \<and> g_players s1 5 = Some p1
         \<and> track_a p1 = 0 \<and> track_b p1 = 0)
   \<and> (\<exists>s' p'. load True (wav_env 4 48000 480000) two_player_state 5 ''b.wav'' None None
           = Inr (s', 1)
         \<and> g_players s' 5 = Some p' \<and> track_a p' = 0 \<and> track_b p' = 0)
   \<and> (\<exists>s' p'. load True ((wav_env 4 48000 480000)\<lparr>sf_open_ok := False\<rparr>) two_player_state 5
           ''b.wav'' None None = Inr (s', 0)
         \<and> g_players s' 5 = Some p' \<and> track_a p' = 0 \<and> track_b p' = 0)
   \<and> (\<exists>s' p'. load True (wav_env 4 48000 480000) tracked_state 0 ''b.wav'' None None
           = Inr (s', 1)
         \<and> g_players s' 0 = Some p' \<and> track_a p' = 0 \<and> track_b p' = 0)"
proof -
  have g5: "get_player two_player_state 5 = Inr (Some second_player)"
    by (simp add: lookup_defs example_defs)
  have g0: "get_player tracked_state 0 = Inr (Some tracked_player)"
    by (simp add: lookup_defs example_defs)
  have v: "file_open second_player = 2" "file_open tracked_player = 2"
    "track_a second_player = 1" "track_b second_player = - 1"
    "track_a tracked_player = 1" "track_b tracked_player = - 1"
    by (simp_all add: example_defs)
  have o5: "file_open second_player = 0 \<or> file_open second_player = 2" using v by simp
  have o0: "file_open tracked_player = 0 \<or> file_open tracked_player = 2" using v by simp
  have l1: "\<exists>s'. load True (wav_env 4 48000 480000) two_player_state 5 ''b.wav'' None None
      = Inr (s', 1)"
    apply (simp add: load_def load_prepare_def load_reset_def unload_def stop_playback_def
        ptr_of_def lookup_defs example_defs notify_defs Let_def file_thread_exit_def)
    apply (simp add: worker_defs Let_def)
    done
  have l2: "\<exists>s'. load True ((wav_env 4 48000 480000)\<lparr>sf_open_ok := False\<rparr>) two_player_state 5
      ''b.wav'' None None = Inr (s', 0)"
    apply (simp add: load_def load_prepare_def load_reset_def unload_def stop_playback_def
        ptr_of_def lookup_defs example_defs notify_defs Let_def file_thread_exit_def)
    apply (simp add: worker_defs Let_def)
    done
  have l3: "\<exists>s'. load True (wav_env 4 48000 480000) tracked_state 0 ''b.wav'' None None
      = Inr (s', 1)"
    apply (simp add: load_def load_prepare_def load_reset_def unload_def stop_playback_def
        ptr_of_def lookup_defs example_defs notify_defs Let_def file_thread_exit_def)
    apply (simp add: worker_defs Let_def)
    done
  note t5 = load_resets_tracks [OF g5 o5]
  note t0 = load_resets_tracks [OF g0 o0]
  from t5 [of True]
  have a: "\<exists>s1 p1. load_reset True two_player_state 5 = Inr (Some s1) \<and> g_players s1 5 = Some p1
         \<and> track_a p1 = 0 \<and> track_b p1 = 0"
    by simp
  from l1 t5 [of True "''b.wav''" True "wav_env 4 48000 480000" None None]
  have b: "\<exists>s' p'. load True (wav_env 4 48000 480000) two_player_state 5 ''b.wav'' None None
           = Inr (s', 1)
         \<and> g_players s' 5 = Some p' \<and> track_a p' = 0 \<and> track_b p' = 0"
    by fastforce
  from l2 t5 [of True "''b.wav''" True "(wav_env 4 48000 480000)\<lparr>sf_open_ok := False\<rparr>" None None]
  have c: "\<exists>s' p'. load True ((wav_env 4 48000 480000)\<lparr>sf_open_ok := False\<rparr>) two_player_state 5
           ''b.wav'' None None = Inr (s', 0)
         \<and> g_players s' 5 = Some p' \<and> track_a p' = 0 \<and> track_b p' = 0"
    by fastforce
  from l3 t0 [of True "''b.wav''" True "wav_env 4 48000 480000" None None]
  have d: "\<exists>s' p'. load True (wav_env 4 48000 480000) tracked_state 0 ''b.wav'' None None
           = Inr (s', 1)
         \<and> g_players s' 0 = Some p' \<and> track_a p' = 0 \<and> track_b p' = 0"
    by fastforce
  from g5 g0 v a b c d show ?thesis by blast
qed

text \<open>
  \<^verbatim>\<open>load\<close> on the same player when the thread cannot be created: the tracks are reset,
  and the call of \<^verbatim>\<open>unload\<close> that follows joins a thread that does not exist.
\<close>

lemma load_without_thread_on_second_player:
  "load False (wav_env 4 48000 480000) two_player_state 5 ''b.wav'' None None = Inl InvalidThread"
proof -
  have g5: "get_player two_player_state 5 = Inr (Some second_player)"
    by (simp add: lookup_defs example_defs)
  have o5: "file_open second_player = 0 \<or> file_open second_player = 2"
    by (simp add: example_defs)
  from load_without_thread [OF g5 o5] show ?thesis by simp
qed

subsection \<open>The downmix\<close>

lemma filter_even_upt:
  assumes "even t" "t < n"
  shows "filter even [t..<n] = t # filter even [t + 2..<n]"
proof (cases "t + 1 < n")
  case True
  then have "[t..<n] = t # (t + 1) # [t + 2..<n]"
    by (simp add: upt_rec [of t] upt_rec [of "Suc t"])
  then show ?thesis using assms by simp
next
  case False
  then have "[t..<n] = [t]" using assms by (simp add: upt_rec [of t])
  then show ?thesis using assms False by simp
qed

lemma filter_odd_upt:
  assumes "even t" "t + 1 < n"
  shows "filter odd [t..<n] = (t + 1) # filter odd [t + 2..<n]"
proof -
  have "[t..<n] = t # (t + 1) # [t + 2..<n]"
    using assms by (simp add: upt_rec [of t] upt_rec [of "Suc t"])
  then show ?thesis using assms by simp
qed

lemma filter_odd_upt_end:
  assumes "even t" "\<not> t + 1 < n"
  shows "filter odd [t..<n] = []"
  using assms by (cases "t < n") (simp_all add: upt_rec [of t])

lemma half_channels: "real_of_int (int n div 2) = real (n div 2)"
  by (metis of_int_of_nat_eq of_nat_numeral zdiv_int)

text \<open>The two mixing loops add up the channels of their parity, each divided.\<close>

lemma mix_a_sum:
  assumes "even t" "sample + n \<le> length buf"
  shows "mix_a buf sample (int n) (int t) acc =
     Inr (acc + sum_list (map (\<lambda>i. buf ! (sample + i) / real (n div 2)) (filter even [t..<n])))"
  using assms
proof (induction "n - t" arbitrary: t acc rule: less_induct)
  case less
  show ?case
  proof (cases "t < n")
    case False
    then show ?thesis by (simp add: mix_a.simps)
  next
    case True
    have ev: "even (t + 2)" using less.prems by simp
    have "mix_a buf sample (int n) (int t + 2) (acc + buf ! (sample + t) / real (n div 2)) =
        Inr (acc + buf ! (sample + t) / real (n div 2)
           + sum_list (map (\<lambda>i. buf ! (sample + i) / real (n div 2)) (filter even [t + 2..<n])))"
      using less.hyps [of "t + 2" "acc + buf ! (sample + t) / real (n div 2)"] True ev less.prems(2)
      by (simp add: add.commute)
    then show ?thesis
      using True less.prems
      by (subst mix_a.simps) (simp add: buf_at_def filter_even_upt add.assoc half_channels)
  qed
qed

lemma mix_b_sum:
  assumes "even t" "sample + n \<le> length buf"
  shows "mix_b buf sample (int n) (int t) acc =
     Inr (acc + sum_list (map (\<lambda>i. buf ! (sample + i) / real (n div 2)) (filter odd [t..<n])))"
  using assms
proof (induction "n - t" arbitrary: t acc rule: less_induct)
  case less
  show ?case
  proof (cases "t + 1 < n")
    case False
    then show ?thesis using less.prems by (simp add: mix_b.simps filter_odd_upt_end)
  next
    case True
    have ev: "even (t + 2)" using less.prems by simp
    have "mix_b buf sample (int n) (int t + 2) (acc + buf ! (sample + t + 1) / real (n div 2)) =
        Inr (acc + buf ! (sample + t + 1) / real (n div 2)
           + sum_list (map (\<lambda>i. buf ! (sample + i) / real (n div 2)) (filter odd [t + 2..<n])))"
      using less.hyps [of "t + 2" "acc + buf ! (sample + t + 1) / real (n div 2)"] True ev less.prems(2)
      by (simp add: add.commute)
    then show ?thesis
      using True less.prems
      by (subst mix_b.simps) (simp add: buf_at_def filter_odd_upt add.assoc half_channels)
  qed
qed

lemma sum_list_map_divide:
  "sum_list (map (\<lambda>i. f i / c) xs) = sum_list (map f xs) / (c :: real)"
  by (induction xs) (simp_all add: add_divide_distrib)

lemma length_filter_parity:
  "length (filter even [0..<n]) = (n + 1) div 2 \<and> length (filter odd [0..<n]) = n div 2"
  by (induction n) auto

lemma frame_of_props:
  assumes "(k + 1) * n \<le> length buf"
  shows "length (frame_of buf n k) = n" "i < n \<Longrightarrow> frame_of buf n k ! i = buf ! (k * n + i)"
  using assms by (simp_all add: frame_of_def)

lemma legs_of_frame:
  assumes "(k + 1) * n \<le> length buf"
  shows "even_channels (frame_of buf n k) = map (\<lambda>i. buf ! (k * n + i)) (filter even [0..<n])"
    and "odd_channels (frame_of buf n k) = map (\<lambda>i. buf ! (k * n + i)) (filter odd [0..<n])"
  using frame_of_props [OF assms]
  by (simp_all add: even_channels_def odd_channels_def)

text \<open>
  What the demultiplexer computes for frame \<open>k\<close> of a file with \<open>n\<close> channels, when the
  frame lies in the buffer and the selected tracks are channels of the file (which
  \<^verbatim>\<open>set_track_a\<close>, \<^verbatim>\<open>set_track_b\<close> and \<^verbatim>\<open>load\<close> see to). A mono source gives half of its
  sample to each leg. An explicit track is copied. With a negative \<^verbatim>\<open>track_b\<close> the right
  leg is the average of the channels of odd index, for every channel count. With a
  negative \<^verbatim>\<open>track_a\<close> the left leg is the sum of the channels of even index divided by
  \<open>n div 2\<close>; that is their average when \<open>n\<close> is even.
\<close>

lemma demux_frame_downmix:
  assumes ch: "sf_channels (sf_info p) = int n" and n: "1 \<le> n"
    and len: "(k + 1) * n \<le> length buf"
    and ta: "track_a p < int n" and tb: "track_b p < int n"
  shows "\<exists>fA fB. demux_frame p buf k = Inr (fA, fB) \<and>
    (n = 1 \<longrightarrow> fA = frame_of buf n k ! 0 / 2 \<and> fB = frame_of buf n k ! 0 / 2) \<and>
    (2 \<le> n \<and> track_a p < 0 \<longrightarrow> fA = sum_list (even_channels (frame_of buf n k)) / real (n div 2)) \<and>
    (2 \<le> n \<and> track_a p < 0 \<and> even n \<longrightarrow> fA = average (even_channels (frame_of buf n k))) \<and>
    (2 \<le> n \<and> track_b p < 0 \<longrightarrow> fB = average (odd_channels (frame_of buf n k))) \<and>
    (2 \<le> n \<and> 0 \<le> track_a p \<longrightarrow> fA = frame_of buf n k ! nat (track_a p)) \<and>
    (2 \<le> n \<and> 0 \<le> track_b p \<longrightarrow> fB = frame_of buf n k ! nat (track_b p))"
proof (cases "n = 1")
  case True
  then have "demux_frame p buf k = Inr (buf ! k / 2, buf ! k / 2)"
    and "frame_of buf n k ! 0 = buf ! k"
    using ch len by (simp_all add: demux_frame_def buf_at_def frame_of_def)
  with True show ?thesis
    by (intro exI [of _ "buf ! k / 2"]) simp
next
  case False
  with n have n2: "2 \<le> n" by simp
  have bound: "k * n + n \<le> length buf" using len by (simp add: algebra_simps)
  define fA where "fA = (if track_a p < 0
      then sum_list (map (\<lambda>i. buf ! (k * n + i)) (filter even [0..<n])) / real (n div 2)
      else buf ! (k * n + nat (track_a p)))"
  define fB where "fB = (if track_b p < 0
      then sum_list (map (\<lambda>i. buf ! (k * n + i)) (filter odd [0..<n])) / real (n div 2)
      else buf ! (k * n + nat (track_b p)))"
  have ma: "mix_a buf (k * n) (int n) 0 0 =
      Inr (sum_list (map (\<lambda>i. buf ! (k * n + i)) (filter even [0..<n])) / real (n div 2))"
    using mix_a_sum [of 0 "k * n" n buf 0] bound by (simp add: sum_list_map_divide)
  have mb: "mix_b buf (k * n) (int n) 0 0 =
      Inr (sum_list (map (\<lambda>i. buf ! (k * n + i)) (filter odd [0..<n])) / real (n div 2))"
    using mix_b_sum [of 0 "k * n" n buf 0] bound by (simp add: sum_list_map_divide)
  have ia: "0 \<le> track_a p \<Longrightarrow> k * n + nat (track_a p) < length buf"
    using ta bound by linarith
  have ib: "0 \<le> track_b p \<Longrightarrow> k * n + nat (track_b p) < length buf"
    using tb bound by linarith
  have d: "demux_frame p buf k = Inr (fA, fB)"
    using ch n2 ma mb ia ib by (simp add: demux_frame_def buf_at_def fA_def fB_def Let_def)
  have la: "0 \<le> track_a p \<Longrightarrow> frame_of buf n k ! nat (track_a p) = buf ! (k * n + nat (track_a p))"
    using frame_of_props(2) [OF len, of "nat (track_a p)"] ta by simp
  have lb: "0 \<le> track_b p \<Longrightarrow> frame_of buf n k ! nat (track_b p) = buf ! (k * n + nat (track_b p))"
    using frame_of_props(2) [OF len, of "nat (track_b p)"] tb by simp
  have ev: "even n \<Longrightarrow> (n + 1) div 2 = n div 2" by presburger
  show ?thesis
    using d False n2 la lb ev
    by (auto simp: fA_def fB_def legs_of_frame [OF len] average_def length_filter_parity)
qed

text \<open>The file with four channels of the claim: the legs of the frame \<open>[1, 2, 4, 8]\<close>.\<close>

lemma demux_frame_four_channels:
  "demux_frame (open_player\<lparr>sf_info := sf_open_info (wav_env 4 48000 480000), track_a := - 1,
       track_b := - 1\<rparr>) [1, 2, 4, 8] 0 = Inr ((1 + 4) / 2, (2 + 8) / 2)"
  by (simp add: demux_frame_def example_defs wav_env_def mix_a.simps mix_b.simps buf_at_def)

text \<open>
  C4. With \<^verbatim>\<open>track_a = -1\<close> the left leg is to be the average of the channels of even
  index. For a file with three channels and the frame \<open>[1, 0, 1]\<close> the demultiplexer
  puts 2 on the left leg, the sum of the channels 0 and 2, where their average is 1:
  the divisor \<^verbatim>\<open>channels / 2\<close> is 1, the number of channels of odd index, and the left leg
  has two channels.
\<close>

theorem demux_frame_three_channels:
  "demux_frame (open_player\<lparr>sf_info := sf_open_info (wav_env 3 48000 480000), track_a := - 1,
       track_b := - 1\<rparr>) [1, 0, 1] 0 = Inr (2, 0)
   \<and> average (even_channels [1, 0, 1]) = 1
   \<and> average (odd_channels [1, 0, 1]) = 0"
  by (simp add: demux_frame_def example_defs wav_env_def mix_a.simps mix_b.simps buf_at_def
      average_def even_channels_def odd_channels_def upt_rec)

subsection \<open>The worker's wait for space\<close>

text \<open>The test of the underrun branch, \<^verbatim>\<open>sizeof(float) < written\<close>, never holds.\<close>

lemma demux_write_never_logs:
  "demux_write buf n k p = Inr (p', logged) \<Longrightarrow> \<not> logged"
proof (induction buf n k p rule: demux_write.induct)
  case (1 buf nFramesRead frame p)
  show ?case
  proof (cases "frame < nFramesRead")
    case False
    with "1.prems" show ?thesis by (simp add: demux_write.simps [of buf nFramesRead frame p])
  next
    case True
    from True "1.prems" obtain fA fB rb_b rb_a where
      d: "demux_frame p buf frame = Inr (fA, fB)" "rb_deref (ringbuffer_b p) = Inr rb_b"
        "rb_deref (ringbuffer_a p) = Inr rb_a"
      by (auto simp: demux_write.simps [of buf nFramesRead frame p] split: sum.splits)
    obtain rb_b' nWrote where wb: "jack_ringbuffer_write rb_b 4 = (rb_b', nWrote)" by fastforce
    obtain rb_a' m where wa: "jack_ringbuffer_write rb_a nWrote = (rb_a', m)" by fastforce
    have "nWrote \<le> 4" using wb by (auto simp: jack_ringbuffer_write_def Let_def)
    moreover have "m \<le> nWrote" using wa by (auto simp: jack_ringbuffer_write_def Let_def)
    ultimately have m: "\<not> 4 < m" by simp
    let ?p' = "p\<lparr>ringbuffer_b := Some rb_b', ringbuffer_a := Some rb_a'\<rparr>"
    have "demux_write buf nFramesRead (frame + 1) ?p' = Inr (p', logged)"
      using "1.prems" True d wb wa m by (simp add: demux_write.simps [of buf nFramesRead frame p])
    with "1.IH" [OF True d(1) refl d(2) d(3) wb [symmetric] refl wa [symmetric] refl refl m]
    show ?thesis by simp
  qed
qed

text \<open>
  The wait ends as soon as one of the two ring buffers has room for the block, unless
  the worker is idle.
\<close>

lemma wait_condition_one_buffer:
  assumes "ringbuffer_a p = Some ra" "ringbuffer_b p = Some rb" "file_read_status p \<noteq> IDLE"
    and "(n * 4) mod 2 ^ 64 \<le> jack_ringbuffer_write_space ra
         \<or> (n * 4) mod 2 ^ 64 \<le> jack_ringbuffer_write_space rb"
  shows "wait_condition p n = Inr False"
  using assms by (auto simp: wait_condition_def rb_deref_def)

text \<open>
  C7. The worker is to write a block only after both ring buffers have room for it, and
  a short write is to end the writing of the block. In the state where the realtime
  callback has read its period from ring buffer A and not yet from ring buffer B (A has
  room for 1024 bytes, B is full), a block of 10 frames passes the wait at once, without
  a single sleep: the loop waits only while both ring buffers lack room. Ring buffer B
  then takes 0 bytes of every sample and ring buffer A is handed that count, so all 10
  frames are dropped, the loop runs to its end and the underrun branch is not taken.
\<close>

theorem wait_for_space_passes_with_one_buffer_full:
  "wait_for_space [] 0 10 draining_state = Inr (Some draining_state)
   \<and> worker_write_block [] 0 (replicate 20 1) 10 draining_state
       = Inr (Some (draining_state, False))"
  by (simp add: worker_write_block_def example_defs wait_condition_def rb_deref_def
      at_player_def bindE_def jack_ringbuffer_write_space_def demux_frame_def buf_at_def
      jack_ringbuffer_write_def Let_def demux_write.simps)

subsection \<open>The wrap at the loop end\<close>

text \<open>
  With a loop that starts at 0 the wrap \<^verbatim>\<open>pos % loop_end + loop_start\<close> lands in
  \<open>[0, loop_end)\<close> and asks for a LOOPING reload.
\<close>

lemma c_rem_nonneg: "0 \<le> a \<Longrightarrow> 0 < b \<Longrightarrow> c_rem a b = a mod b"
  by (simp add: c_rem_def sgn_if)

lemma loop_wrap_from_zero:
  assumes "loop p \<noteq> 0" "loop_start_src p = 0" "0 < loop_end_src p"
    and "loop_end_src p \<le> uint (play_pos_frames p) \<or> eof"
  shows "\<exists>p'. end_of_period p eof = Inr p' \<and> 0 \<le> uint (play_pos_frames p')
     \<and> uint (play_pos_frames p') < loop_end_src p \<and> file_read_status p' = LOOPING"
proof -
  let ?a = "uint (play_pos_frames p)"
  let ?m = "?a mod loop_end_src p"
  have a: "0 \<le> ?a" "?a < 2 ^ 32" using uint_lt2p [of "play_pos_frames p"] by simp_all
  have m: "0 \<le> ?m" "?m < loop_end_src p" "?m \<le> ?a"
    using assms(3) a by (simp_all add: zmod_le_nonneg_dividend)
  have rem: "c_rem ?a (loop_end_src p) = ?m"
    using a(1) assms(3) by (rule c_rem_nonneg)
  have u: "uint (word_of_int ?m :: 32 word) = ?m"
    using m a by (simp add: uint_word_of_int take_bit_int_eq_self)
  show ?thesis
    using assms rem u m by (auto simp: end_of_period_def Let_def)
qed

text \<open>
  C5. The wrap is to put the play position into \<open>[loop_start, loop_end)\<close>. The example
  player loops over \<open>[4800, 4900)\<close>, plays at 4860 and has 140 frames queued. One period
  of 256 frames reads them all and moves the position to 5000; the wrap computes
  \<open>5000 mod 4900 + 4800 = 4900\<close>, which is not below the loop end.
\<close>

theorem loop_wrap_leaves_loop:
  "loop_start_src looping_player = 4800 \<and> loop_end_src looping_player = 4900
   \<and> on_jack_process powf 256 [] looping_state =
       Inr (put_player looping_state 0
             (looping_player\<lparr>play_pos_frames := 4900, loop_loaded := 0,
                file_read_status := LOOPING,
                ringbuffer_a := Some \<lparr>rb_size = 960000, rb_fill = 0\<rparr>,
                ringbuffer_b := Some \<lparr>rb_size = 960000, rb_fill = 0\<rparr>\<rparr>))"
  by (simp add: on_jack_process_def upt_rec process_player_def example_defs bindE_def
      rb_deref_def jack_ringbuffer_read_def jack_ringbuffer_read_space_def end_of_period_def
      c_rem_def Let_def)

subsection \<open>Note events\<close>

text \<open>
  The exponents of the notes 60, 48 and 72: \<^verbatim>\<open>pow\<close> is called with 0, 12 and -12.
\<close>

lemma note_ratio_exponents:
  "note_ratio powf 60 = powf 0" "note_ratio powf 48 = powf 12" "note_ratio powf 72 = powf (- 12)"
  by (simp_all add: note_ratio_def)

text \<open>A note-on that reaches an open player.\<close>

lemma note_on_open_player:
  "process_midi_event powf playing_state (0x90, 48, 100) =
     Inr (put_player playing_state 0
           (playing_player\<lparr>pitch_shift := note_ratio powf 48, play_pos_frames := 0,
              file_read_status := SEEKING,
              ringbuffer_a := Some \<lparr>rb_size = 960000, rb_fill = 0\<rparr>,
              ringbuffer_b := Some \<lparr>rb_size = 960000, rb_fill = 0\<rparr>,
              last_note_played := 48, play_state := STARTING\<rparr>))"
  by (simp add: process_midi_event_def example_defs lookup_defs rb_reset_ptr_def rb_deref_def
      Let_def jack_ringbuffer_reset_def)

text \<open>
  C6. Every note-on routed to a player is to reset both ring buffers and start the
  transport. The player that \<^verbatim>\<open>add_player\<close> has just created has no file and no ring
  buffers; a note-on for it (channel 0, note 60, velocity 100) passes the test
  \<^verbatim>\<open>g_players[chan]\<close> and calls \<^verbatim>\<open>jack_ringbuffer_reset\<close> on a pointer that names no ring
  buffer.
\<close>

theorem note_on_without_file:
  "g_players fresh_state 0 = Some fresh_player \<and> file_open fresh_player = 0
   \<and> process_midi_event powf fresh_state (0x90, 60, 100) = Inl InvalidRingbuffer"
  by (simp add: process_midi_event_def example_defs lookup_defs rb_reset_ptr_def rb_deref_def
      Let_def)

text \<open>A note-off, and a note-on with velocity 0, for the note that was triggered last.\<close>

lemma note_off_matching:
  "process_midi_event powf playing_state (0x80, 60, 0) =
     Inr (put_player
           (playing_state\<lparr>cb_log := [\<lparr>call_fn = 9, call_object = Some 7, call_handle = 0,
               call_tag = NOTIFY_TRANSPORT, call_value = Num 3\<rparr>]\<rparr>)
           0 (playing_player\<lparr>play_state := STOPPING, last_play_state := STOPPING,
                pitch_shift := 1, last_note_played := 0\<rparr>))
   \<and> process_midi_event powf playing_state (0x90, 60, 0)
       = process_midi_event powf playing_state (0x80, 60, 0)"
  by (simp add: process_midi_event_def stop_playback_def ptr_of_def example_defs lookup_defs
      notify_defs Let_def)

text \<open>
  C8. A note-off, or a note-on with velocity 0, for a note other than the one triggered
  last is to leave the transport, the pitch and the last note alone. The example player
  plays note 60. The note-on with velocity 0 for note 61 fails the test of the note-off
  branch and falls into the note-on branch: the pitch becomes that of note 61, the
  position is reset, the last note becomes 61 and the transport STARTING. (The note-off
  \<open>0x80\<close> for note 61 changes nothing.)
\<close>

theorem zero_velocity_note_on_retriggers:
  "last_note_played playing_player = 60 \<and> play_state playing_player = PLAYING
   \<and> process_midi_event powf playing_state (0x90, 61, 0) =
       Inr (put_player playing_state 0
             (playing_player\<lparr>pitch_shift := note_ratio powf 61, play_pos_frames := 0,
                file_read_status := SEEKING,
                ringbuffer_a := Some \<lparr>rb_size = 960000, rb_fill = 0\<rparr>,
                ringbuffer_b := Some \<lparr>rb_size = 960000, rb_fill = 0\<rparr>,
                last_note_played := 61, play_state := STARTING\<rparr>))
   \<and> process_midi_event powf playing_state (0x80, 61, 0) = Inr playing_state"
  by (simp add: process_midi_event_def example_defs lookup_defs rb_reset_ptr_def rb_deref_def
      Let_def jack_ringbuffer_reset_def)

end
